theory Spec2Isabelle
  imports Complex_Main "HOL-Library.Sublist"
begin

section \<open>Values: float64 cells, errors\<close>

text \<open>
  The program of \<^verbatim>\<open>extract_functions.py\<close> computes with numpy float64 values. They are
  modelled as exact reals extended by the three special values that the program can
  produce (a division by a zero area sum gives NaN or an infinity, with a warning and
  not an exception). Rounding error of the binary format is not modelled.
\<close>

datatype fl = Fin real | PInf | NInf | NaN

datatype error = AssertionError | KeyError | IndexError

fun fadd :: "fl \<Rightarrow> fl \<Rightarrow> fl" where
  "fadd (Fin a) (Fin b) = Fin (a + b)"
| "fadd NaN _ = NaN"
| "fadd _ NaN = NaN"
| "fadd PInf NInf = NaN"
| "fadd NInf PInf = NaN"
| "fadd PInf _ = PInf"
| "fadd _ PInf = PInf"
| "fadd NInf _ = NInf"
| "fadd _ NInf = NInf"

text \<open>\<^verbatim>\<open>a / b\<close> on two finite numpy floats.\<close>

definition fdiv :: "real \<Rightarrow> real \<Rightarrow> fl" where
  "fdiv a b =
     (if b \<noteq> 0 then Fin (a / b)
      else if a = 0 then NaN else if 0 < a then PInf else NInf)"

text \<open>\<^verbatim>\<open>x * c\<close> for a finite constant \<open>c\<close>.\<close>

fun fscale :: "fl \<Rightarrow> real \<Rightarrow> fl" where
  "fscale (Fin a) c = Fin (a * c)"
| "fscale NaN c = NaN"
| "fscale PInf c = (if 0 < c then PInf else if c < 0 then NInf else NaN)"
| "fscale NInf c = (if 0 < c then NInf else if c < 0 then PInf else NaN)"

text \<open>
  The sum of pandas with \<^verbatim>\<open>skipna=True\<close> (the default of \<^verbatim>\<open>DataFrame.sum\<close>): NaN
  cells are left out, and the sum of nothing is 0.
\<close>

definition nansum :: "fl list \<Rightarrow> fl" where
  "nansum vs = foldl fadd (Fin 0) (filter (\<lambda>v. v \<noteq> NaN) vs)"

text \<open>
  \<^verbatim>\<open>numpy.testing.assert_almost_equal(actual, desired, decimal)\<close>: a value that is not
  finite never equals the finite \<open>desired\<close>; a finite one passes when
  \<^verbatim>\<open>abs(desired - actual) < 1.5 * 10**(-decimal)\<close>.
\<close>

definition assert_almost_equal :: "fl \<Rightarrow> real \<Rightarrow> nat \<Rightarrow> error + unit" where
  "assert_almost_equal actual desired decimal =
     (case actual of
        Fin a \<Rightarrow> if 15 / 10 / 10 ^ decimal \<le> \<bar>desired - a\<bar> then Inl AssertionError else Inr ()
      | _ \<Rightarrow> Inl AssertionError)"

text \<open>
  \<^verbatim>\<open>len(set(values))\<close> on a list of Python floats: equal numbers are one element, and
  every NaN is an element of its own (NaN is not equal to NaN, and \<^verbatim>\<open>tolist()\<close> makes a
  float object for each cell).
\<close>

definition len_set :: "fl list \<Rightarrow> nat" where
  "len_set vs = length (remdups (filter (\<lambda>v. v \<noteq> NaN) vs)) + length (filter (\<lambda>v. v = NaN) vs)"

text \<open>\<^verbatim>\<open>numpy.round(x, decimals)\<close>: to the nearest multiple of \<open>10 ^ - decimals\<close>, ties to the even one.\<close>

definition rint :: "real \<Rightarrow> real" where
  "rint x =
     (let f = \<lfloor>x\<rfloor>; d = x - of_int f
      in if d < 1 / 2 then of_int f
         else if 1 / 2 < d then of_int (f + 1)
         else if even f then of_int f else of_int (f + 1))"

fun round_cell :: "nat \<Rightarrow> fl \<Rightarrow> fl" where
  "round_cell decimals (Fin x) = Fin (rint (x * 10 ^ decimals) / 10 ^ decimals)"
| "round_cell decimals v = v"

section \<open>Tables: pandas DataFrame, geopandas GeoDataFrame\<close>

text \<open>
  A DataFrame is its index (here: gauge identifiers, which the program only copies; they
  are kept as strings) and its columns in order, each a name and one cell for every row of
  the index.
\<close>

record frame =
  index :: "string list"
  cols :: "(string \<times> fl list) list"

definition columns :: "frame \<Rightarrow> string list" where
  "columns df = map fst (cols df)"

text \<open>\<^verbatim>\<open>pd.DataFrame()\<close>\<close>

definition DataFrame :: frame where
  "DataFrame = \<lparr>index = [], cols = []\<rparr>"

text \<open>\<^verbatim>\<open>df.values\<close>: the cells, row by row.\<close>

definition frame_values :: "frame \<Rightarrow> fl list list" where
  "frame_values df = map (\<lambda>i. map (\<lambda>(n, xs). xs ! i) (cols df)) [0..<length (index df)]"

text \<open>\<^verbatim>\<open>df[names]\<close> with a list of column names taken from \<^verbatim>\<open>df.columns\<close>.\<close>

definition getitem_list :: "frame \<Rightarrow> string list \<Rightarrow> frame" where
  "getitem_list df names = df\<lparr>cols := concat (map (\<lambda>n. filter (\<lambda>(m, xs). m = n) (cols df)) names)\<rparr>"

text \<open>\<^verbatim>\<open>df[name]\<close>: one column.\<close>

definition getitem :: "frame \<Rightarrow> string \<Rightarrow> error + fl list" where
  "getitem df name = (case map_of (cols df) name of None \<Rightarrow> Inl KeyError | Some xs \<Rightarrow> Inr xs)"

text \<open>\<^verbatim>\<open>df[name] = series\<close> for a series on the index of \<open>df\<close>: an existing column is
  replaced where it stands, a new one is added at the end.\<close>

definition setitem :: "frame \<Rightarrow> string \<Rightarrow> fl list \<Rightarrow> frame" where
  "setitem df name xs =
     (if name \<in> set (columns df)
      then df\<lparr>cols := map (\<lambda>(n, ys). if n = name then (n, xs) else (n, ys)) (cols df)\<rparr>
      else df\<lparr>cols := cols df @ [(name, xs)]\<rparr>)"

text \<open>\<^verbatim>\<open>df[name] = scalar\<close>: the scalar in every row.\<close>

definition setitem_scalar :: "frame \<Rightarrow> string \<Rightarrow> fl \<Rightarrow> frame" where
  "setitem_scalar df name v = setitem df name (replicate (length (index df)) v)"

text \<open>\<^verbatim>\<open>df.drop(names, axis=1, inplace=True)\<close> for names of columns of \<open>df\<close>.\<close>

definition drop_cols :: "frame \<Rightarrow> string list \<Rightarrow> frame" where
  "drop_cols df names = df\<lparr>cols := filter (\<lambda>(n, xs). n \<notin> set names) (cols df)\<rparr>"

text \<open>\<^verbatim>\<open>df.sum(axis=1)\<close>: one sum for each row.\<close>

definition sum_axis1 :: "frame \<Rightarrow> fl list" where
  "sum_axis1 df = map nansum (frame_values df)"

text \<open>\<^verbatim>\<open>series.iloc[0]\<close>\<close>

definition iloc0 :: "'a list \<Rightarrow> error + 'a" where
  "iloc0 xs = (case xs of [] \<Rightarrow> Inl IndexError | x # _ \<Rightarrow> Inr x)"

text \<open>\<^verbatim>\<open>df.round(decimals)\<close>\<close>

definition round_frame :: "frame \<Rightarrow> nat \<Rightarrow> frame" where
  "round_frame df decimals = df\<lparr>cols := map (\<lambda>(n, xs). (n, map (round_cell decimals) xs)) (cols df)\<rparr>"

text \<open>
  \<^verbatim>\<open>pd.concat(dfs, axis=1)\<close> for frames on one and the same index: the columns side by
  side. The six frames of one catchment are such frames (\<open>extractor_single\<close> below: each
  has the identifier of the catchment as its only index entry).
\<close>

definition concat_axis1 :: "frame list \<Rightarrow> frame" where
  "concat_axis1 dfs = \<lparr>index = (case dfs of [] \<Rightarrow> [] | df # _ \<Rightarrow> index df), cols = concat (map cols dfs)\<rparr>"

text \<open>
  \<^verbatim>\<open>pd.concat([a, b], axis=0)\<close>: the rows of \<open>a\<close>, then those of \<open>b\<close>; the columns of
  \<open>a\<close>, then those that only \<open>b\<close> has; NaN where a frame has no such column.
\<close>

definition column_or_nan :: "frame \<Rightarrow> string \<Rightarrow> fl list" where
  "column_or_nan df n =
     (case map_of (cols df) n of Some xs \<Rightarrow> xs | None \<Rightarrow> replicate (length (index df)) NaN)"

definition concat_axis0 :: "frame \<Rightarrow> frame \<Rightarrow> frame" where
  "concat_axis0 a b =
     (let names = columns a @ filter (\<lambda>n. n \<notin> set (columns a)) (columns b)
      in \<lparr>index = index a @ index b,
          cols = map (\<lambda>n. (n, column_or_nan a n @ column_or_nan b n)) names\<rparr>)"

text \<open>
  The base map: one row for each polygon, with the six fields the program reads and the
  geometry (a field without a value compares unequal to every label, as a string that is
  no label does). The catchments: one row for each catchment, with its attribute fields
  (one of them the identifier) and the geometry. Both carry a coordinate reference.
\<close>

record 'g huek_row =
  kf_bez :: string
  LChar_bez :: string
  HA_bez :: string
  VF_bez :: string
  GA_bez :: string
  GC_bez :: string
  geom :: 'g

record ('g, 'c) huek_gdf =
  huek_rows :: "'g huek_row list"
  huek_crs :: 'c

record 'g catchment_row =
  attrs :: "(string \<times> string) list"
  geometry :: 'g

record ('g, 'c) catchment_gdf =
  catchment_rows :: "'g catchment_row list"
  catchment_crs :: 'c

text \<open>
  The geometric operations of geopandas are not code of this program; they are
  parameters of the model: \<^verbatim>\<open>huek.clip(mask)\<close>, the area of a geometry and the
  reprojection of a geometry from one coordinate reference into another.
\<close>

record ('g, 'c) geolib =
  clip :: "('g, 'c) huek_gdf \<Rightarrow> ('g, 'c) catchment_gdf \<Rightarrow> ('g, 'c) huek_gdf"
  area :: "'g \<Rightarrow> real"
  reproject :: "'c \<Rightarrow> 'c \<Rightarrow> 'g \<Rightarrow> 'g"

text \<open>\<^verbatim>\<open>catchment[id_field_name]\<close>: the column of that name, a KeyError if there is none.\<close>

definition catchment_getitem :: "('g, 'c) catchment_gdf \<Rightarrow> string \<Rightarrow> error + string list" where
  "catchment_getitem catchment name =
     (if list_all (\<lambda>r. map_of (attrs r) name \<noteq> None) (catchment_rows catchment)
      then Inr (map (\<lambda>r. the (map_of (attrs r) name)) (catchment_rows catchment))
      else Inl KeyError)"

text \<open>\<^verbatim>\<open>catchments.to_crs(crs)\<close>: a new GeoDataFrame.\<close>

definition to_crs :: "('g, 'c) geolib \<Rightarrow> ('g, 'c) catchment_gdf \<Rightarrow> 'c \<Rightarrow> ('g, 'c) catchment_gdf" where
  "to_crs G catchments crs =
     \<lparr>catchment_rows = map (\<lambda>r. r\<lparr>geometry := reproject G (catchment_crs catchments) crs (geometry r)\<rparr>)
                          (catchment_rows catchments),
      catchment_crs = crs\<rparr>"

text \<open>\<^verbatim>\<open>clipped[clipped[field] == label].area.sum()\<close> and \<^verbatim>\<open>clipped.area.sum()\<close>\<close>

definition area_sum :: "('g, 'c) geolib \<Rightarrow> 'g huek_row list \<Rightarrow> real" where
  "area_sum G rows = sum_list (map (\<lambda>r. area G (geom r)) rows)"

text \<open>The expression of every category column:
  \<^verbatim>\<open>(clipped[clipped[field] == label].area.sum() / clipped.area.sum()) * 100\<close>\<close>

definition perc :: "('g, 'c) geolib \<Rightarrow> ('g, 'c) huek_gdf \<Rightarrow> ('g huek_row \<Rightarrow> string) \<Rightarrow> string \<Rightarrow> fl" where
  "perc G clipped field label =
     fscale (fdiv (area_sum G (filter (\<lambda>r. field r = label) (huek_rows clipped)))
                  (area_sum G (huek_rows clipped))) 100"

section \<open>The consistency checker\<close>

definition check_extracted_values :: "frame \<Rightarrow> string \<Rightarrow> error + unit" where
  "check_extracted_values df category =
     (case iloc0 (sum_axis1 (getitem_list df (filter (\<lambda>col. prefix category col) (columns df)))) of
        Inl e \<Rightarrow> Inl e
      | Inr sum_category \<Rightarrow> assert_almost_equal sum_category 100 1)"

section \<open>The six attribute extractors\<close>

text \<open>
  The labels of the base map are German; a letter outside ASCII is written as the bytes of
  its UTF-8 encoding (two strings are equal exactly when their encodings are).
\<close>

definition ae :: string where
  "ae = [CHR 0xC3, CHR 0xA4]"

definition sz :: string where
  "sz = [CHR 0xC3, CHR 0x9F]"

definition ue :: string where
  "ue = [CHR 0xC3, CHR 0xBC]"

definition extract_kf_from_huek ::
  "('g, 'c) geolib \<Rightarrow> ('g, 'c) huek_gdf \<Rightarrow> ('g, 'c) catchment_gdf \<Rightarrow> string \<Rightarrow> error + frame" where
  "extract_kf_from_huek G huek catchment id_field_name =
     (let clipped = clip G huek catchment
      in case catchment_getitem catchment id_field_name of
           Inl e \<Rightarrow> Inl e
         | Inr gauge_id \<Rightarrow>
             (let df = DataFrame\<lparr>index := gauge_id\<rparr>;
                  df = setitem_scalar df ''kf_very_high_perc'' (perc G clipped kf_bez ''sehr hoch (>1E-2)'');
                  df = setitem_scalar df ''kf_high_perc'' (perc G clipped kf_bez ''hoch (>1E-3 - 1E-2)'');
                  df = setitem_scalar df ''kf_medium_perc'' (perc G clipped kf_bez ''mittel (>1E-4 - 1E-3)'');
                  df = setitem_scalar df ''kf_moderate_perc'' (perc G clipped kf_bez (''m'' @ ae @ sz @ ''ig (>1E-5 - 1E-4)''));
                  df = setitem_scalar df ''kf_low_perc'' (perc G clipped kf_bez ''gering (>1E-7 - 1E-5)'');
                  df = setitem_scalar df ''kf_very_low_perc'' (perc G clipped kf_bez ''sehr gering (>1E-9 - 1E-7)'');
                  df = setitem_scalar df ''kf_extremely_low_perc'' (perc G clipped kf_bez (ae @ ''u'' @ sz @ ''erst gering (<1E-9)''));
                  df = setitem_scalar df ''kf_very_high_to_high_perc'' (perc G clipped kf_bez ''sehr hoch bis hoch (>1E-3)'');
                  df = setitem_scalar df ''kf_medium_to_moderate_perc'' (perc G clipped kf_bez (''mittel bis m'' @ ae @ sz @ ''ig (>1E-5 - 1E-3)''));
                  df = setitem_scalar df ''kf_low_to_extremely_low_perc'' (perc G clipped kf_bez (''gering bis '' @ ae @ ''u'' @ sz @ ''erst gering (<1E-5)''));
                  df = setitem_scalar df ''kf_highly_variable_perc'' (perc G clipped kf_bez ''stark variabel'');
                  df = setitem_scalar df ''kf_moderate_to_low_perc'' (perc G clipped kf_bez (''m'' @ ae @ sz @ ''ig bis gering (>1E-6 - 1E-4)''));
                  df = setitem_scalar df ''kf_waterbody_perc'' (perc G clipped kf_bez (''Gew'' @ ae @ ''sser''));
                  df = setitem_scalar df ''kf_no_data_perc'' (perc G clipped kf_bez ''keine Angaben'')
              in case check_extracted_values df ''kf'' of
                   Inl e \<Rightarrow> Inl e
                 | Inr u \<Rightarrow> Inr df))"

definition extract_ch_from_huek ::
  "('g, 'c) geolib \<Rightarrow> ('g, 'c) huek_gdf \<Rightarrow> ('g, 'c) catchment_gdf \<Rightarrow> string \<Rightarrow> error + frame" where
  "extract_ch_from_huek G huek catchment id_field_name =
     (let clipped = clip G huek catchment
      in case catchment_getitem catchment id_field_name of
           Inl e \<Rightarrow> Inl e
         | Inr gauge_id \<Rightarrow>
             (let df = DataFrame\<lparr>index := gauge_id\<rparr>;
                  df = setitem_scalar df ''aquitard_perc'' (perc G clipped LChar_bez ''Grundwasser-Geringleiter'');
                  df = setitem_scalar df ''aquifer_perc'' (perc G clipped LChar_bez ''Grundwasser-Leiter'');
                  df = setitem_scalar df ''aquifer_aquitard_mixed_perc'' (perc G clipped LChar_bez ''Grundwasser-Leiter/Geringleiter'');
                  df = setitem_scalar df ''aquifer_waterbody_perc'' (perc G clipped LChar_bez (''Gew'' @ ae @ ''sser''));
                  df = setitem_scalar df ''aquifer_no_data_perc'' (perc G clipped LChar_bez ''keine Angaben'')
              in case check_extracted_values df ''aqui'' of
                   Inl e \<Rightarrow> Inl e
                 | Inr u \<Rightarrow> Inr df))"

definition extract_ha_from_huek ::
  "('g, 'c) geolib \<Rightarrow> ('g, 'c) huek_gdf \<Rightarrow> ('g, 'c) catchment_gdf \<Rightarrow> string \<Rightarrow> error + frame" where
  "extract_ha_from_huek G huek catchment id_field_name =
     (let clipped = clip G huek catchment
      in case catchment_getitem catchment id_field_name of
           Inl e \<Rightarrow> Inl e
         | Inr gauge_id \<Rightarrow>
             (let df = DataFrame\<lparr>index := gauge_id\<rparr>;
                  df = setitem_scalar df ''cavity_fissure_perc'' (perc G clipped HA_bez ''Kluft'');
                  df = setitem_scalar df ''cavity_pores_perc'' (perc G clipped HA_bez ''Poren'');
                  df = setitem_scalar df ''cavity_fissure_karst_perc'' (perc G clipped HA_bez ''Kluft/Karst'');
                  df = setitem_scalar df ''cavity_fissure_pores_perc'' (perc G clipped HA_bez ''Kluft/Poren'');
                  df = setitem_scalar df ''cavity_waterbody_perc'' (perc G clipped HA_bez (''Gew'' @ ae @ ''sser''));
                  df = setitem_scalar df ''cavity_no_data_perc'' (perc G clipped HA_bez ''keine Angaben'')
              in case check_extracted_values df ''cavity'' of
                   Inl e \<Rightarrow> Inl e
                 | Inr u \<Rightarrow> Inr df))"

definition extract_vf_from_huek ::
  "('g, 'c) geolib \<Rightarrow> ('g, 'c) huek_gdf \<Rightarrow> ('g, 'c) catchment_gdf \<Rightarrow> string \<Rightarrow> error + frame" where
  "extract_vf_from_huek G huek catchment id_field_name =
     (let clipped = clip G huek catchment
      in case catchment_getitem catchment id_field_name of
           Inl e \<Rightarrow> Inl e
         | Inr gauge_id \<Rightarrow>
             (let df = DataFrame\<lparr>index := gauge_id\<rparr>;
                  df = setitem_scalar df ''consolidation_solid_rock_perc'' (perc G clipped VF_bez ''Festgestein'');
                  df = setitem_scalar df ''consolidation_unconsolidated_rock_perc'' (perc G clipped VF_bez ''Lockergestein'');
                  df = setitem_scalar df ''consolidation_waterbody_perc'' (perc G clipped VF_bez (''Gew'' @ ae @ ''sser''));
                  df = setitem_scalar df ''consolidation_no_data_perc'' (perc G clipped VF_bez ''keine Angaben'')
              in case check_extracted_values df ''consolidation'' of
                   Inl e \<Rightarrow> Inl e
                 | Inr u \<Rightarrow> Inr df))"

definition extract_ga_from_huek ::
  "('g, 'c) geolib \<Rightarrow> ('g, 'c) huek_gdf \<Rightarrow> ('g, 'c) catchment_gdf \<Rightarrow> string \<Rightarrow> error + frame" where
  "extract_ga_from_huek G huek catchment id_field_name =
     (let clipped = clip G huek catchment
      in case catchment_getitem catchment id_field_name of
           Inl e \<Rightarrow> Inl e
         | Inr gauge_id \<Rightarrow>
             (let df = DataFrame\<lparr>index := gauge_id\<rparr>;
                  df = setitem_scalar df ''rocktype_sediment_perc'' (perc G clipped GA_bez ''Sediment'');
                  df = setitem_scalar df ''rocktype_metamorphite_perc'' (perc G clipped GA_bez ''Metamorphit'');
                  df = setitem_scalar df ''rocktype_magmatite_perc'' (perc G clipped GA_bez ''Magmatit'');
                  df = setitem_scalar df ''rocktype_waterbody_perc'' (perc G clipped GA_bez (''Gew'' @ ae @ ''sser''));
                  df = setitem_scalar df ''rocktype_no_data_perc'' (perc G clipped GA_bez ''keine Angaben'')
              in case check_extracted_values df ''rocktype'' of
                   Inl e \<Rightarrow> Inl e
                 | Inr u \<Rightarrow> Inr df))"

definition extract_gc_from_huek ::
  "('g, 'c) geolib \<Rightarrow> ('g, 'c) huek_gdf \<Rightarrow> ('g, 'c) catchment_gdf \<Rightarrow> string \<Rightarrow> error + frame" where
  "extract_gc_from_huek G huek catchment id_field_name =
     (let clipped = clip G huek catchment
      in case catchment_getitem catchment id_field_name of
           Inl e \<Rightarrow> Inl e
         | Inr gauge_id \<Rightarrow>
             (let df = DataFrame\<lparr>index := gauge_id\<rparr>;
                  df = setitem_scalar df ''geochemical_rocktype_silicate_perc'' (perc G clipped GC_bez ''silikatisch'');
                  df = setitem_scalar df ''geochemical_rocktype_silicate_carbonatic_perc'' (perc G clipped GC_bez ''silikatisch/karbonatisch'');
                  df = setitem_scalar df ''geochemical_rocktype_carbonatic_perc'' (perc G clipped GC_bez ''karbonatisch'');
                  df = setitem_scalar df ''geochemical_rocktype_sulfatic_perc'' (perc G clipped GC_bez ''sulfatisch'');
                  df = setitem_scalar df ''geochemical_rocktype_silicate_organic_components_perc'' (perc G clipped GC_bez ''silikatisch mit organischen Anteilen'');
                  df = setitem_scalar df ''geochemical_rocktype_anthropogenically_modified_through_filling_perc'' (perc G clipped GC_bez (''durch Auff'' @ ue @ ''llung anthropogen ver'' @ ae @ ''ndert''));
                  df = setitem_scalar df ''geochemical_rocktype_sulfatic_halitic_perc'' (perc G clipped GC_bez ''sulfatisch/halitisch'');
                  df = setitem_scalar df ''geochemical_rocktype_halitic_perc'' (perc G clipped GC_bez ''halitisch'');
                  df = setitem_scalar df ''geochemical_rocktype_waterbody_perc'' (perc G clipped GC_bez (''Gew'' @ ae @ ''sser''));
                  df = setitem_scalar df ''geochemical_rocktype_no_data_perc'' (perc G clipped GC_bez ''keine Angaben'')
              in case check_extracted_values df ''geochemical_rocktype'' of
                   Inl e \<Rightarrow> Inl e
                 | Inr u \<Rightarrow> Inr df))"

section \<open>The aggregator\<close>

text \<open>
  One iteration of the loop of \<^verbatim>\<open>extract_hydrogeology_attributes_huek\<close>, up to the merged
  row of the catchment: the catchment as a GeoDataFrame of one row, the six extractions
  (in the order of the source), the merge, and the two collapses.
\<close>

definition merge_catchment ::
  "('g, 'c) geolib \<Rightarrow> ('g, 'c) huek_gdf \<Rightarrow> string \<Rightarrow> 'g catchment_row \<Rightarrow> error + frame" where
  "merge_catchment G huek id_field_name row =
     (let catchment = \<lparr>catchment_rows = [row], catchment_crs = huek_crs huek\<rparr>
      in case extract_ch_from_huek G huek catchment id_field_name of Inl e \<Rightarrow> Inl e | Inr df_ch \<Rightarrow>
        (case extract_kf_from_huek G huek catchment id_field_name of Inl e \<Rightarrow> Inl e | Inr df_kf \<Rightarrow>
        (case extract_ha_from_huek G huek catchment id_field_name of Inl e \<Rightarrow> Inl e | Inr df_ha \<Rightarrow>
        (case extract_ga_from_huek G huek catchment id_field_name of Inl e \<Rightarrow> Inl e | Inr df_ga \<Rightarrow>
        (case extract_vf_from_huek G huek catchment id_field_name of Inl e \<Rightarrow> Inl e | Inr df_vf \<Rightarrow>
        (case extract_gc_from_huek G huek catchment id_field_name of Inl e \<Rightarrow> Inl e | Inr df_gc \<Rightarrow>
        (let df = concat_axis1 [df_kf, df_ch, df_ha, df_vf, df_ga, df_gc];
             waterbody_cols = filter (\<lambda>col. sublist ''waterbody'' col) (columns df)
         in if len_set (concat (frame_values (getitem_list df waterbody_cols))) \<noteq> 1
            then Inl AssertionError
            else (case iloc0 waterbody_cols of Inl e \<Rightarrow> Inl e | Inr c0 \<Rightarrow>
                 (case getitem df c0 of Inl e \<Rightarrow> Inl e | Inr waterbody \<Rightarrow>
           (let df = setitem df ''waterbody_perc'' waterbody;
                df = drop_cols df waterbody_cols;
                no_data_cols = filter (\<lambda>col. sublist ''no_data'' col) (columns df)
            in if len_set (concat (frame_values (getitem_list df no_data_cols))) \<noteq> 1
               then Inl AssertionError
               else (case iloc0 no_data_cols of Inl e \<Rightarrow> Inl e | Inr c0 \<Rightarrow>
                    (case getitem df c0 of Inl e \<Rightarrow> Inl e | Inr no_data \<Rightarrow>
              (let df = setitem df ''no_data_perc'' no_data;
                   df = drop_cols df no_data_cols
               in Inr df)))))))))))))"

text \<open>The loop over the rows of the catchments, with the accumulator \<^verbatim>\<open>df_all\<close>.\<close>

fun catchment_loop ::
  "('g, 'c) geolib \<Rightarrow> ('g, 'c) huek_gdf \<Rightarrow> string \<Rightarrow> 'g catchment_row list \<Rightarrow> frame \<Rightarrow> error + frame" where
  "catchment_loop G huek id_field_name [] df_all = Inr df_all"
| "catchment_loop G huek id_field_name (row # rows) df_all =
     (case merge_catchment G huek id_field_name row of
        Inl e \<Rightarrow> Inl e
      | Inr df \<Rightarrow> catchment_loop G huek id_field_name rows (concat_axis0 df_all df))"

definition extract_hydrogeology_attributes_huek ::
  "('g, 'c) geolib \<Rightarrow> ('g, 'c) huek_gdf \<Rightarrow> ('g, 'c) catchment_gdf \<Rightarrow> string \<Rightarrow> error + frame" where
  "extract_hydrogeology_attributes_huek G huek catchments id_field_name =
     (let catchments = to_crs G catchments (huek_crs huek);
          df_all = DataFrame
      in case catchment_loop G huek id_field_name (catchment_rows catchments) df_all of
           Inl e \<Rightarrow> Inl e
         | Inr df_all \<Rightarrow> Inr (round_frame df_all 2))"

section \<open>The six extractors as one table-driven extractor\<close>

text \<open>
  The six extractors differ in the field they read, in the prefix they check and in their
  list of (column, label) pairs. The lists below are read off the assignments of the
  extractors; \<open>extract_table\<close> is the extractor with these three as parameters, and the
  lemmas \<open>extract_kf_table\<close> to \<open>extract_gc_table\<close> prove each extractor equal to it.
\<close>

definition kf_vocab :: "(string \<times> string) list" where
  "kf_vocab =
     [(''kf_very_high_perc'', ''sehr hoch (>1E-2)''),
      (''kf_high_perc'', ''hoch (>1E-3 - 1E-2)''),
      (''kf_medium_perc'', ''mittel (>1E-4 - 1E-3)''),
      (''kf_moderate_perc'', ''m'' @ ae @ sz @ ''ig (>1E-5 - 1E-4)''),
      (''kf_low_perc'', ''gering (>1E-7 - 1E-5)''),
      (''kf_very_low_perc'', ''sehr gering (>1E-9 - 1E-7)''),
      (''kf_extremely_low_perc'', ae @ ''u'' @ sz @ ''erst gering (<1E-9)''),
      (''kf_very_high_to_high_perc'', ''sehr hoch bis hoch (>1E-3)''),
      (''kf_medium_to_moderate_perc'', ''mittel bis m'' @ ae @ sz @ ''ig (>1E-5 - 1E-3)''),
      (''kf_low_to_extremely_low_perc'', ''gering bis '' @ ae @ ''u'' @ sz @ ''erst gering (<1E-5)''),
      (''kf_highly_variable_perc'', ''stark variabel''),
      (''kf_moderate_to_low_perc'', ''m'' @ ae @ sz @ ''ig bis gering (>1E-6 - 1E-4)''),
      (''kf_waterbody_perc'', ''Gew'' @ ae @ ''sser''),
      (''kf_no_data_perc'', ''keine Angaben'')]"

definition ch_vocab :: "(string \<times> string) list" where
  "ch_vocab =
     [(''aquitard_perc'', ''Grundwasser-Geringleiter''),
      (''aquifer_perc'', ''Grundwasser-Leiter''),
      (''aquifer_aquitard_mixed_perc'', ''Grundwasser-Leiter/Geringleiter''),
      (''aquifer_waterbody_perc'', ''Gew'' @ ae @ ''sser''),
      (''aquifer_no_data_perc'', ''keine Angaben'')]"

definition ha_vocab :: "(string \<times> string) list" where
  "ha_vocab =
     [(''cavity_fissure_perc'', ''Kluft''),
      (''cavity_pores_perc'', ''Poren''),
      (''cavity_fissure_karst_perc'', ''Kluft/Karst''),
      (''cavity_fissure_pores_perc'', ''Kluft/Poren''),
      (''cavity_waterbody_perc'', ''Gew'' @ ae @ ''sser''),
      (''cavity_no_data_perc'', ''keine Angaben'')]"

definition vf_vocab :: "(string \<times> string) list" where
  "vf_vocab =
     [(''consolidation_solid_rock_perc'', ''Festgestein''),
      (''consolidation_unconsolidated_rock_perc'', ''Lockergestein''),
      (''consolidation_waterbody_perc'', ''Gew'' @ ae @ ''sser''),
      (''consolidation_no_data_perc'', ''keine Angaben'')]"

definition ga_vocab :: "(string \<times> string) list" where
  "ga_vocab =
     [(''rocktype_sediment_perc'', ''Sediment''),
      (''rocktype_metamorphite_perc'', ''Metamorphit''),
      (''rocktype_magmatite_perc'', ''Magmatit''),
      (''rocktype_waterbody_perc'', ''Gew'' @ ae @ ''sser''),
      (''rocktype_no_data_perc'', ''keine Angaben'')]"

definition gc_vocab :: "(string \<times> string) list" where
  "gc_vocab =
     [(''geochemical_rocktype_silicate_perc'', ''silikatisch''),
      (''geochemical_rocktype_silicate_carbonatic_perc'', ''silikatisch/karbonatisch''),
      (''geochemical_rocktype_carbonatic_perc'', ''karbonatisch''),
      (''geochemical_rocktype_sulfatic_perc'', ''sulfatisch''),
      (''geochemical_rocktype_silicate_organic_components_perc'', ''silikatisch mit organischen Anteilen''),
      (''geochemical_rocktype_anthropogenically_modified_through_filling_perc'', ''durch Auff'' @ ue @ ''llung anthropogen ver'' @ ae @ ''ndert''),
      (''geochemical_rocktype_sulfatic_halitic_perc'', ''sulfatisch/halitisch''),
      (''geochemical_rocktype_halitic_perc'', ''halitisch''),
      (''geochemical_rocktype_waterbody_perc'', ''Gew'' @ ae @ ''sser''),
      (''geochemical_rocktype_no_data_perc'', ''keine Angaben'')]"

definition extract_table ::
  "(string \<times> string) list \<Rightarrow> ('g huek_row \<Rightarrow> string) \<Rightarrow> string \<Rightarrow>
   ('g, 'c) geolib \<Rightarrow> ('g, 'c) huek_gdf \<Rightarrow> ('g, 'c) catchment_gdf \<Rightarrow> string \<Rightarrow> error + frame" where
  "extract_table vocab field category G huek catchment id_field_name =
     (case catchment_getitem catchment id_field_name of
        Inl e \<Rightarrow> Inl e
      | Inr gauge_id \<Rightarrow>
          (let df = \<lparr>index = gauge_id,
                     cols = map (\<lambda>(col, label).
                              (col, replicate (length gauge_id) (perc G (clip G huek catchment) field label))) vocab\<rparr>
           in case check_extracted_values df category of
                Inl e \<Rightarrow> Inl e
              | Inr u \<Rightarrow> Inr df))"

datatype attribute = KF | CH | HA | VF | GA | GC

fun extractor ::
  "attribute \<Rightarrow> ('g, 'c) geolib \<Rightarrow> ('g, 'c) huek_gdf \<Rightarrow> ('g, 'c) catchment_gdf \<Rightarrow> string \<Rightarrow> error + frame" where
  "extractor KF = extract_kf_from_huek"
| "extractor CH = extract_ch_from_huek"
| "extractor HA = extract_ha_from_huek"
| "extractor VF = extract_vf_from_huek"
| "extractor GA = extract_ga_from_huek"
| "extractor GC = extract_gc_from_huek"

fun vocab_of :: "attribute \<Rightarrow> (string \<times> string) list" where
  "vocab_of KF = kf_vocab"
| "vocab_of CH = ch_vocab"
| "vocab_of HA = ha_vocab"
| "vocab_of VF = vf_vocab"
| "vocab_of GA = ga_vocab"
| "vocab_of GC = gc_vocab"

fun field_of :: "attribute \<Rightarrow> 'g huek_row \<Rightarrow> string" where
  "field_of KF = kf_bez"
| "field_of CH = LChar_bez"
| "field_of HA = HA_bez"
| "field_of VF = VF_bez"
| "field_of GA = GA_bez"
| "field_of GC = GC_bez"

fun prefix_of :: "attribute \<Rightarrow> string" where
  "prefix_of KF = ''kf''"
| "prefix_of CH = ''aqui''"
| "prefix_of HA = ''cavity''"
| "prefix_of VF = ''consolidation''"
| "prefix_of GA = ''rocktype''"
| "prefix_of GC = ''geochemical_rocktype''"

text \<open>
  The sum that the checker looks at, for row \<open>i\<close>: the cells of the columns whose name
  starts with the prefix. The test of \<^verbatim>\<open>assert_almost_equal(s, 100, decimal=1)\<close> on it.
\<close>

definition prefix_sum :: "frame \<Rightarrow> string \<Rightarrow> nat \<Rightarrow> fl" where
  "prefix_sum df category i =
     nansum (map (\<lambda>(n, xs). xs ! i)
       (cols (getitem_list df (filter (\<lambda>col. prefix category col) (columns df)))))"

definition within_tolerance :: "fl \<Rightarrow> bool" where
  "within_tolerance s = (case s of Fin x \<Rightarrow> \<bar>100 - x\<bar> < 15 / 100 | _ \<Rightarrow> False)"

definition table_frame :: "string list \<Rightarrow> (string \<times> string) list \<Rightarrow> (string \<Rightarrow> fl) \<Rightarrow> frame" where
  "table_frame ids vocab f =
     \<lparr>index = ids, cols = map (\<lambda>(col, label). (col, replicate (length ids) (f label))) vocab\<rparr>"

section \<open>Rows, and example data\<close>

text \<open>Row \<open>i\<close> of a frame, as pairs of column name and cell.\<close>

definition row_of :: "frame \<Rightarrow> nat \<Rightarrow> (string \<times> fl) list" where
  "row_of df i = map (\<lambda>(n, xs). (n, xs ! i)) (cols df)"

text \<open>
  Example data: a geometry is represented by its area, the clip keeps the whole base map,
  and the reprojection changes nothing.
\<close>

definition example_lib :: "(real, unit) geolib" where
  "example_lib = \<lparr>clip = (\<lambda>huek mask. huek), area = (\<lambda>g. g), reproject = (\<lambda>src dst g. g)\<rparr>"

definition example_polygon :: "string \<Rightarrow> real \<Rightarrow> real huek_row" where
  "example_polygon label a =
     \<lparr>kf_bez = label, LChar_bez = label, HA_bez = label, VF_bez = label, GA_bez = label,
      GC_bez = label, geom = a\<rparr>"

definition example_catchment :: "string \<Rightarrow> real catchment_row" where
  "example_catchment gid = \<lparr>attrs = [(''gauge_id'', gid)], geometry = 1\<rparr>"

definition example_huek_unknown :: "(real, unit) huek_gdf" where
  "example_huek_unknown =
     \<lparr>huek_rows = [example_polygon ''stark variabel'' 9988, example_polygon ''unbekannt'' 12],
      huek_crs = ()\<rparr>"

definition example_gdf :: "(real, unit) catchment_gdf" where
  "example_gdf = \<lparr>catchment_rows = [example_catchment ''DE1''], catchment_crs = ()\<rparr>"

definition example_huek_single :: "(real, unit) huek_gdf" where
  "example_huek_single = \<lparr>huek_rows = [example_polygon ''stark variabel'' 5], huek_crs = ()\<rparr>"

section \<open>Derived notions for the aggregator\<close>

text \<open>
  The two collapse blocks of the loop body (waterbody, then no-data) are the same code with
  two different pairs of constants; \<open>collapse\<close> is that block with the pair as
  parameters, and \<open>merge_catchment_collapse\<close> proves the loop body equal to its two uses.
\<close>

definition collapse :: "frame \<Rightarrow> string \<Rightarrow> string \<Rightarrow> error + frame" where
  "collapse df key name =
     (let key_cols = filter (\<lambda>col. sublist key col) (columns df)
      in if len_set (concat (frame_values (getitem_list df key_cols))) \<noteq> 1
         then Inl AssertionError
         else (case iloc0 key_cols of Inl e \<Rightarrow> Inl e | Inr c0 \<Rightarrow>
              (case getitem df c0 of Inl e \<Rightarrow> Inl e | Inr s \<Rightarrow>
                 Inr (drop_cols (setitem df name s) key_cols))))"

text \<open>The two labels that every vocabulary has, and the column each extractor gives them.\<close>

definition waterbody_label :: string where
  "waterbody_label = ''Gew'' @ ae @ ''sser''"

definition no_data_label :: string where
  "no_data_label = ''keine Angaben''"

fun waterbody_column :: "attribute \<Rightarrow> string" where
  "waterbody_column KF = ''kf_waterbody_perc''"
| "waterbody_column CH = ''aquifer_waterbody_perc''"
| "waterbody_column HA = ''cavity_waterbody_perc''"
| "waterbody_column VF = ''consolidation_waterbody_perc''"
| "waterbody_column GA = ''rocktype_waterbody_perc''"
| "waterbody_column GC = ''geochemical_rocktype_waterbody_perc''"

fun no_data_column :: "attribute \<Rightarrow> string" where
  "no_data_column KF = ''kf_no_data_perc''"
| "no_data_column CH = ''aquifer_no_data_perc''"
| "no_data_column HA = ''cavity_no_data_perc''"
| "no_data_column VF = ''consolidation_no_data_perc''"
| "no_data_column GA = ''rocktype_no_data_perc''"
| "no_data_column GC = ''geochemical_rocktype_no_data_perc''"

text \<open>
  The columns of the six extractors in the order of the merge, each with its extractor and
  its label; those that survive the two collapses; the merged row of a catchment with
  identifier \<open>g\<close> whose cells are \<open>F\<close>.
\<close>

definition attributes :: "attribute list" where
  "attributes = [KF, CH, HA, VF, GA, GC]"

definition tagged_vocab :: "(attribute \<times> string \<times> string) list" where
  "tagged_vocab = concat (map (\<lambda>a. map (\<lambda>(col, label). (a, col, label)) (vocab_of a)) attributes)"

definition plain_vocab :: "(attribute \<times> string \<times> string) list" where
  "plain_vocab =
     filter (\<lambda>(a, col, label). \<not> sublist ''waterbody'' col \<and> \<not> sublist ''no_data'' col) tagged_vocab"

definition merged_frame :: "string \<Rightarrow> (attribute \<Rightarrow> string \<Rightarrow> fl) \<Rightarrow> frame" where
  "merged_frame g F =
     \<lparr>index = [g],
      cols = map (\<lambda>(a, col, label). (col, [F a label])) plain_vocab @
        [(''waterbody_perc'', [F KF waterbody_label]), (''no_data_perc'', [F KF no_data_label])]\<rparr>"

definition merged_columns :: "string list" where
  "merged_columns = map (\<lambda>(a, col, label). col) plain_vocab @ [''waterbody_perc'', ''no_data_perc'']"

text \<open>
  The GeoDataFrame of one row that the loop builds for a catchment, the percentage that
  extractor \<open>a\<close> computes for a label on it, and the verdict of the checker on the
  frame of extractor \<open>a\<close>.
\<close>

definition single_catchment :: "('g, 'c) huek_gdf \<Rightarrow> 'g catchment_row \<Rightarrow> ('g, 'c) catchment_gdf" where
  "single_catchment huek row = \<lparr>catchment_rows = [row], catchment_crs = huek_crs huek\<rparr>"

definition cell :: "('g, 'c) geolib \<Rightarrow> ('g, 'c) huek_gdf \<Rightarrow> 'g catchment_row \<Rightarrow> attribute \<Rightarrow> string \<Rightarrow> fl" where
  "cell G huek row a label = perc G (clip G huek (single_catchment huek row)) (field_of a) label"

definition field_ok :: "('g, 'c) geolib \<Rightarrow> ('g, 'c) huek_gdf \<Rightarrow> 'g catchment_row \<Rightarrow> attribute \<Rightarrow> bool" where
  "field_ok G huek row a =
     within_tolerance (nansum (map (\<lambda>(col, label). cell G huek row a label) (vocab_of a)))"

text \<open>Frames with the columns \<open>names\<close>, one below the other.\<close>

definition vstack :: "string list \<Rightarrow> frame list \<Rightarrow> frame" where
  "vstack names dfs =
     \<lparr>index = concat (map index dfs),
      cols = map (\<lambda>n. (n, concat (map (\<lambda>df. column_or_nan df n) dfs))) names\<rparr>"

text \<open>More example data: a base map on which all six extractions agree, one on which the
  waterbody percentages differ, and one that covers nothing.\<close>

definition example_land :: "real \<Rightarrow> real huek_row" where
  "example_land a =
     \<lparr>kf_bez = ''stark variabel'', LChar_bez = ''Grundwasser-Leiter'', HA_bez = ''Poren'',
      VF_bez = ''Lockergestein'', GA_bez = ''Sediment'', GC_bez = ''silikatisch'', geom = a\<rparr>"

definition example_water :: "real \<Rightarrow> real huek_row" where
  "example_water a =
     \<lparr>kf_bez = waterbody_label, LChar_bez = waterbody_label, HA_bez = waterbody_label,
      VF_bez = waterbody_label, GA_bez = waterbody_label, GC_bez = waterbody_label, geom = a\<rparr>"

definition example_huek_ok :: "(real, unit) huek_gdf" where
  "example_huek_ok = \<lparr>huek_rows = [example_land 60, example_water 40], huek_crs = ()\<rparr>"

definition example_huek_mismatch :: "(real, unit) huek_gdf" where
  "example_huek_mismatch =
     \<lparr>huek_rows = [example_land 60, (example_land 40)\<lparr>kf_bez := waterbody_label\<rparr>], huek_crs = ()\<rparr>"

definition example_catchments :: "(real, unit) catchment_gdf" where
  "example_catchments =
     \<lparr>catchment_rows = [example_catchment ''DE1'', example_catchment ''DE2''], catchment_crs = ()\<rparr>"

definition example_huek_empty :: "(real, unit) huek_gdf" where
  "example_huek_empty = \<lparr>huek_rows = [], huek_crs = ()\<rparr>"

text \<open>A base map of several polygons, two of them with the same permeability class.\<close>

definition example_huek_several :: "(real, unit) huek_gdf" where
  "example_huek_several =
     \<lparr>huek_rows = [example_polygon ''stark variabel'' 25, example_polygon waterbody_label 25,
                   example_polygon ''stark variabel'' 50],
      huek_crs = ()\<rparr>"

text \<open>
  Example data with a clip that depends on the catchment: a geometry is an interval of the
  real line, given by its two ends; the clip cuts every polygon of the base map to every
  polygon of the mask and keeps what is not empty; the area is the length. The base map
  \<open>interval_huek\<close> is land on 0 to 2, water on 2 to 3 and land on 3 to 4; catchment
  \<open>DE7\<close> is 0 to 3, catchment \<open>DE2\<close> is 2 to 4. \<open>interval_table\<close> is the table of
  these two catchments, written out.
\<close>

definition interval_lib :: "(real \<times> real, unit) geolib" where
  "interval_lib =
     \<lparr>clip = (\<lambda>huek mask. huek\<lparr>huek_rows :=
         filter (\<lambda>r. fst (geom r) < snd (geom r))
           (concat (map (\<lambda>m. map (\<lambda>r. r\<lparr>geom :=
               (max (fst (geom r)) (fst (geometry m)), min (snd (geom r)) (snd (geometry m)))\<rparr>)
             (huek_rows huek)) (catchment_rows mask)))\<rparr>),
      area = (\<lambda>g. snd g - fst g),
      reproject = (\<lambda>src dst g. g)\<rparr>"

definition interval_land :: "real \<times> real \<Rightarrow> (real \<times> real) huek_row" where
  "interval_land g =
     \<lparr>kf_bez = ''stark variabel'', LChar_bez = ''Grundwasser-Leiter'', HA_bez = ''Poren'',
      VF_bez = ''Lockergestein'', GA_bez = ''Sediment'', GC_bez = ''silikatisch'', geom = g\<rparr>"

definition interval_water :: "real \<times> real \<Rightarrow> (real \<times> real) huek_row" where
  "interval_water g =
     \<lparr>kf_bez = waterbody_label, LChar_bez = waterbody_label, HA_bez = waterbody_label,
      VF_bez = waterbody_label, GA_bez = waterbody_label, GC_bez = waterbody_label, geom = g\<rparr>"

definition interval_huek :: "(real \<times> real, unit) huek_gdf" where
  "interval_huek =
     \<lparr>huek_rows = [interval_land (0, 2), interval_water (2, 3), interval_land (3, 4)], huek_crs = ()\<rparr>"

definition interval_catchment :: "string \<Rightarrow> real \<times> real \<Rightarrow> (real \<times> real) catchment_row" where
  "interval_catchment gid g = \<lparr>attrs = [(''gauge_id'', gid)], geometry = g\<rparr>"

definition interval_catchments :: "(real \<times> real, unit) catchment_gdf" where
  "interval_catchments =
     \<lparr>catchment_rows = [interval_catchment ''DE7'' (0, 3), interval_catchment ''DE2'' (2, 4)],
      catchment_crs = ()\<rparr>"

definition interval_table :: frame where
  "interval_table =
     \<lparr>index = [''DE7'', ''DE2''],
      cols =
        [(''kf_very_high_perc'', [Fin 0, Fin 0]),
         (''kf_high_perc'', [Fin 0, Fin 0]),
         (''kf_medium_perc'', [Fin 0, Fin 0]),
         (''kf_moderate_perc'', [Fin 0, Fin 0]),
         (''kf_low_perc'', [Fin 0, Fin 0]),
         (''kf_very_low_perc'', [Fin 0, Fin 0]),
         (''kf_extremely_low_perc'', [Fin 0, Fin 0]),
         (''kf_very_high_to_high_perc'', [Fin 0, Fin 0]),
         (''kf_medium_to_moderate_perc'', [Fin 0, Fin 0]),
         (''kf_low_to_extremely_low_perc'', [Fin 0, Fin 0]),
         (''kf_highly_variable_perc'', [Fin (6667 / 100), Fin 50]),
         (''kf_moderate_to_low_perc'', [Fin 0, Fin 0]),
         (''aquitard_perc'', [Fin 0, Fin 0]),
         (''aquifer_perc'', [Fin (6667 / 100), Fin 50]),
         (''aquifer_aquitard_mixed_perc'', [Fin 0, Fin 0]),
         (''cavity_fissure_perc'', [Fin 0, Fin 0]),
         (''cavity_pores_perc'', [Fin (6667 / 100), Fin 50]),
         (''cavity_fissure_karst_perc'', [Fin 0, Fin 0]),
         (''cavity_fissure_pores_perc'', [Fin 0, Fin 0]),
         (''consolidation_solid_rock_perc'', [Fin 0, Fin 0]),
         (''consolidation_unconsolidated_rock_perc'', [Fin (6667 / 100), Fin 50]),
         (''rocktype_sediment_perc'', [Fin (6667 / 100), Fin 50]),
         (''rocktype_metamorphite_perc'', [Fin 0, Fin 0]),
         (''rocktype_magmatite_perc'', [Fin 0, Fin 0]),
         (''geochemical_rocktype_silicate_perc'', [Fin (6667 / 100), Fin 50]),
         (''geochemical_rocktype_silicate_carbonatic_perc'', [Fin 0, Fin 0]),
         (''geochemical_rocktype_carbonatic_perc'', [Fin 0, Fin 0]),
         (''geochemical_rocktype_sulfatic_perc'', [Fin 0, Fin 0]),
         (''geochemical_rocktype_silicate_organic_components_perc'', [Fin 0, Fin 0]),
         (''geochemical_rocktype_anthropogenically_modified_through_filling_perc'', [Fin 0, Fin 0]),
         (''geochemical_rocktype_sulfatic_halitic_perc'', [Fin 0, Fin 0]),
         (''geochemical_rocktype_halitic_perc'', [Fin 0, Fin 0]),
         (''waterbody_perc'', [Fin (3333 / 100), Fin 50]),
         (''no_data_perc'', [Fin 0, Fin 0])]\<rparr>"

text \<open>
  The columns of the permeability extractor by kind: the seven classes of the scale, and
  the classes that range over several of them (their names say \<open>_to_\<close>).
\<close>

definition kf_base_columns :: "string list" where
  "kf_base_columns =
     [''kf_very_high_perc'', ''kf_high_perc'', ''kf_medium_perc'', ''kf_moderate_perc'',
      ''kf_low_perc'', ''kf_very_low_perc'', ''kf_extremely_low_perc'']"

definition kf_range_columns :: "string list" where
  "kf_range_columns = filter (\<lambda>col. sublist ''_to_'' col) (map fst kf_vocab)"
section \<open>The aggregator with its objects made explicit\<close>

text \<open>
  In Python a name holds a reference to an object, and \<^verbatim>\<open>df[col] = v\<close>,
  \<^verbatim>\<open>df.set_index(..., inplace=True)\<close> and \<^verbatim>\<open>df.drop(..., inplace=True)\<close> change the object
  they are called on. To say what the aggregator does to the objects it is given, the same
  program is written once more over a store: the list of the objects that exist, each
  addressed by its position. An object is a DataFrame: its frame, and the geodata it carries
  when it is a GeoDataFrame (which is a DataFrame, and takes every in-place operation of
  one): the polygons of a base map, or a catchment collection.
\<close>

datatype ('g, 'c) geodata =
  NoGeodata | Polygons "('g, 'c) huek_gdf" | Catchments "('g, 'c) catchment_gdf"

record ('g, 'c) obj =
  table :: frame
  geodata :: "('g, 'c) geodata"

text \<open>
  A statement takes the store and gives a value or a fault, and the store after it. A fault
  is an exception of the value-level program, Python's AttributeError for geodata asked of
  an object that has none, or a reference to no object (which Python does not have).
\<close>

datatype fault = Raised error | AttributeError | NoObject

type_synonym ('a, 'g, 'c) prog = "('g, 'c) obj list \<Rightarrow> (fault + 'a) \<times> ('g, 'c) obj list"

definition ret :: "'a \<Rightarrow> ('a, 'g, 'c) prog" where
  "ret x h = (Inr x, h)"

definition raise :: "fault \<Rightarrow> ('a, 'g, 'c) prog" where
  "raise e h = (Inl e, h)"

definition lift :: "error + 'a \<Rightarrow> ('a, 'g, 'c) prog" where
  "lift r h = (case r of Inl e \<Rightarrow> (Inl (Raised e), h) | Inr x \<Rightarrow> (Inr x, h))"

definition seq :: "('a, 'g, 'c) prog \<Rightarrow> ('a \<Rightarrow> ('b, 'g, 'c) prog) \<Rightarrow> ('b, 'g, 'c) prog" where
  "seq m f h = (case m h of (Inl e, h') \<Rightarrow> (Inl e, h') | (Inr x, h') \<Rightarrow> f x h')"

text \<open>
  Reading an object, making a new one, and updating the frame or the geodata of an object
  where it stands. An update goes to whatever object the address holds.
\<close>

definition the_obj :: "nat \<Rightarrow> (('g, 'c) obj, 'g, 'c) prog" where
  "the_obj r h = (if r < length h then (Inr (h ! r), h) else (Inl NoObject, h))"

definition the_frame :: "nat \<Rightarrow> (frame, 'g, 'c) prog" where
  "the_frame r = seq (the_obj r) (\<lambda>ob. ret (table ob))"

definition the_huek :: "nat \<Rightarrow> (('g, 'c) huek_gdf, 'g, 'c) prog" where
  "the_huek r =
     seq (the_obj r) (\<lambda>ob. case geodata ob of Polygons v \<Rightarrow> ret v | _ \<Rightarrow> raise AttributeError)"

definition the_gdf :: "nat \<Rightarrow> (('g, 'c) catchment_gdf, 'g, 'c) prog" where
  "the_gdf r =
     seq (the_obj r) (\<lambda>ob. case geodata ob of Catchments v \<Rightarrow> ret v | _ \<Rightarrow> raise AttributeError)"

fun the_frames :: "nat list \<Rightarrow> (frame list, 'g, 'c) prog" where
  "the_frames [] = ret []"
| "the_frames (r # rs) = seq (the_frame r) (\<lambda>d. seq (the_frames rs) (\<lambda>ds. ret (d # ds)))"

definition new_obj :: "('g, 'c) obj \<Rightarrow> (nat, 'g, 'c) prog" where
  "new_obj ob h = (Inr (length h), h @ [ob])"

definition new_frame :: "frame \<Rightarrow> (nat, 'g, 'c) prog" where
  "new_frame d = new_obj \<lparr>table = d, geodata = NoGeodata\<rparr>"

definition new_gdf :: "('g, 'c) catchment_gdf \<Rightarrow> (nat, 'g, 'c) prog" where
  "new_gdf c = new_obj \<lparr>table = DataFrame, geodata = Catchments c\<rparr>"

definition new_huek :: "('g, 'c) huek_gdf \<Rightarrow> (nat, 'g, 'c) prog" where
  "new_huek v = new_obj \<lparr>table = DataFrame, geodata = Polygons v\<rparr>"

definition update_frame :: "nat \<Rightarrow> (frame \<Rightarrow> frame) \<Rightarrow> (unit, 'g, 'c) prog" where
  "update_frame r f h =
     (if r < length h then (Inr (), h[r := (h ! r)\<lparr>table := f (table (h ! r))\<rparr>])
      else (Inl NoObject, h))"

definition update_geodata :: "nat \<Rightarrow> ('g, 'c) geodata \<Rightarrow> (unit, 'g, 'c) prog" where
  "update_geodata r v h =
     (if r < length h then (Inr (), h[r := (h ! r)\<lparr>geodata := v\<rparr>]) else (Inl NoObject, h))"

text \<open>
  \<^verbatim>\<open>huek.clip(catchment)\<close> and \<^verbatim>\<open>catchments.to_crs(crs)\<close> are calls into geopandas on
  references: what they do to the store is not code of this program, so the two calls are
  parameters of the store-level program, each an arbitrary statement that gives the address
  of its result.
\<close>

record ('g, 'c) storelib =
  clip_store :: "nat \<Rightarrow> nat \<Rightarrow> (nat, 'g, 'c) prog"
  to_crs_store :: "nat \<Rightarrow> 'c \<Rightarrow> (nat, 'g, 'c) prog"

text \<open>
  An extractor: \<open>clipped\<close> is what the library returns, \<open>df\<close> a new frame, and the index
  and every column are assigned to \<open>df\<close> in place, one after the other in the order of the
  source, each reading \<open>clipped\<close>.
\<close>

fun assign_columns ::
  "('g, 'c) geolib \<Rightarrow> nat \<Rightarrow> ('g huek_row \<Rightarrow> string) \<Rightarrow> nat \<Rightarrow>
   (string \<times> string) list \<Rightarrow> (unit, 'g, 'c) prog" where
  "assign_columns G clipped field df [] = ret ()"
| "assign_columns G clipped field df ((col, label) # vocab) =
     seq (the_huek clipped) (\<lambda>cl.
     seq (update_frame df (\<lambda>d. setitem_scalar d col (perc G cl field label))) (\<lambda>u.
     assign_columns G clipped field df vocab))"

definition extract_store ::
  "(string \<times> string) list \<Rightarrow> ('g huek_row \<Rightarrow> string) \<Rightarrow> string \<Rightarrow>
   ('g, 'c) geolib \<Rightarrow> ('g, 'c) storelib \<Rightarrow> nat \<Rightarrow> nat \<Rightarrow> string \<Rightarrow> (nat, 'g, 'c) prog" where
  "extract_store vocab field category G L huek catchment id_field_name =
     seq (clip_store L huek catchment) (\<lambda>clipped.
     seq (new_frame DataFrame) (\<lambda>df.
     seq (the_gdf catchment) (\<lambda>c.
     seq (lift (catchment_getitem c id_field_name)) (\<lambda>gauge_id.
     seq (update_frame df (\<lambda>d. d\<lparr>index := gauge_id\<rparr>)) (\<lambda>u.
     seq (assign_columns G clipped field df vocab) (\<lambda>u.
     seq (the_frame df) (\<lambda>d.
     seq (lift (check_extracted_values d category)) (\<lambda>u.
     ret df))))))))"

text \<open>A collapse block: the new column is set and the old ones are dropped in \<open>df\<close> itself.\<close>

definition collapse_store :: "nat \<Rightarrow> string \<Rightarrow> string \<Rightarrow> (unit, 'g, 'c) prog" where
  "collapse_store df key name =
     seq (the_frame df) (\<lambda>d.
       (let key_cols = filter (\<lambda>col. sublist key col) (columns d)
        in if len_set (concat (frame_values (getitem_list d key_cols))) \<noteq> 1
           then raise (Raised AssertionError)
           else seq (lift (iloc0 key_cols)) (\<lambda>c0.
                seq (lift (getitem d c0)) (\<lambda>s.
                seq (update_frame df (\<lambda>d. setitem d name s)) (\<lambda>u.
                update_frame df (\<lambda>d. drop_cols d key_cols))))))"

text \<open>The loop body, the loop and the aggregator; every name of the source is a reference.\<close>

definition merge_catchment_store ::
  "('g, 'c) geolib \<Rightarrow> ('g, 'c) storelib \<Rightarrow> nat \<Rightarrow> string \<Rightarrow> 'g catchment_row \<Rightarrow> (nat, 'g, 'c) prog" where
  "merge_catchment_store G L huek id_field_name row =
     seq (the_huek huek) (\<lambda>hk.
     seq (new_gdf \<lparr>catchment_rows = [row], catchment_crs = huek_crs hk\<rparr>) (\<lambda>catchment.
     seq (extract_store ch_vocab LChar_bez ''aqui'' G L huek catchment id_field_name) (\<lambda>df_ch.
     seq (extract_store kf_vocab kf_bez ''kf'' G L huek catchment id_field_name) (\<lambda>df_kf.
     seq (extract_store ha_vocab HA_bez ''cavity'' G L huek catchment id_field_name) (\<lambda>df_ha.
     seq (extract_store ga_vocab GA_bez ''rocktype'' G L huek catchment id_field_name) (\<lambda>df_ga.
     seq (extract_store vf_vocab VF_bez ''consolidation'' G L huek catchment id_field_name) (\<lambda>df_vf.
     seq (extract_store gc_vocab GC_bez ''geochemical_rocktype'' G L huek catchment id_field_name) (\<lambda>df_gc.
     seq (the_frames [df_kf, df_ch, df_ha, df_vf, df_ga, df_gc]) (\<lambda>ds.
     seq (new_frame (concat_axis1 ds)) (\<lambda>df.
     seq (collapse_store df ''waterbody'' ''waterbody_perc'') (\<lambda>u.
     seq (collapse_store df ''no_data'' ''no_data_perc'') (\<lambda>u.
     ret df))))))))))))"

fun catchment_loop_store ::
  "('g, 'c) geolib \<Rightarrow> ('g, 'c) storelib \<Rightarrow> nat \<Rightarrow> string \<Rightarrow> 'g catchment_row list \<Rightarrow> nat \<Rightarrow>
   (nat, 'g, 'c) prog" where
  "catchment_loop_store G L huek id_field_name [] df_all = ret df_all"
| "catchment_loop_store G L huek id_field_name (row # rows) df_all =
     seq (merge_catchment_store G L huek id_field_name row) (\<lambda>df.
     seq (the_frames [df_all, df]) (\<lambda>ds.
     seq (new_frame (concat_axis0 (ds ! 0) (ds ! 1))) (\<lambda>df_all.
     catchment_loop_store G L huek id_field_name rows df_all)))"

definition extract_hydrogeology_attributes_huek_store ::
  "('g, 'c) geolib \<Rightarrow> ('g, 'c) storelib \<Rightarrow> nat \<Rightarrow> nat \<Rightarrow> string \<Rightarrow> (nat, 'g, 'c) prog" where
  "extract_hydrogeology_attributes_huek_store G L huek catchments id_field_name =
     seq (the_huek huek) (\<lambda>hk.
     seq (to_crs_store L catchments (huek_crs hk)) (\<lambda>catchments.
     seq (new_frame DataFrame) (\<lambda>df_all.
     seq (the_gdf catchments) (\<lambda>c.
     seq (catchment_loop_store G L huek id_field_name (catchment_rows c) df_all) (\<lambda>df_all.
     seq (the_frame df_all) (\<lambda>d.
     new_frame (round_frame d 2)))))))"

text \<open>
  What is asked of the library: a call leaves every object that exists as it is (it may add
  objects). Nothing is asked of the address it returns.
\<close>

definition preserves :: "('a, 'g, 'c) prog \<Rightarrow> bool" where
  "preserves m \<longleftrightarrow> (\<forall>h res h'. m h = (res, h') \<longrightarrow> prefix h h')"

definition lib_preserves :: "('g, 'c) storelib \<Rightarrow> bool" where
  "lib_preserves L \<longleftrightarrow>
     (\<forall>huek mask. preserves (clip_store L huek mask)) \<and>
     (\<forall>catchments crs. preserves (to_crs_store L catchments crs))"

text \<open>
  \<open>keeps n h h'\<close>: the objects below address \<open>n\<close> are in \<open>h'\<close> as they were in \<open>h\<close>, and
  no object is gone. \<open>safe n m R\<close>: run on a store of at least \<open>n\<close> objects, the statement
  \<open>m\<close> keeps the objects below \<open>n\<close>, and a value it returns satisfies \<open>R\<close>.
\<close>

definition keeps :: "nat \<Rightarrow> 'o list \<Rightarrow> 'o list \<Rightarrow> bool" where
  "keeps n h h' \<longleftrightarrow> take n h' = take n h \<and> length h \<le> length h'"

definition safe :: "nat \<Rightarrow> ('a, 'g, 'c) prog \<Rightarrow> ('a \<Rightarrow> bool) \<Rightarrow> bool" where
  "safe n m R \<longleftrightarrow>
     (\<forall>h res h'. n \<le> length h \<and> m h = (res, h') \<longrightarrow>
        keeps n h h' \<and> (\<forall>x. res = Inr x \<longrightarrow> R x))"

text \<open>
  Two libraries: one whose calls read their arguments and return a new object, as geopandas
  documents it for \<^verbatim>\<open>clip\<close> and for \<^verbatim>\<open>to_crs\<close>; and one whose \<^verbatim>\<open>to_crs\<close> reprojects the
  collection it is called on where it stands (\<^verbatim>\<open>to_crs(..., inplace=True)\<close>).
\<close>

definition alloc_lib :: "('g, 'c) geolib \<Rightarrow> ('g, 'c) storelib" where
  "alloc_lib G =
     \<lparr>clip_store = (\<lambda>huek mask.
        seq (the_huek huek) (\<lambda>hk. seq (the_gdf mask) (\<lambda>c. new_huek (clip G hk c)))),
      to_crs_store = (\<lambda>catchments crs.
        seq (the_gdf catchments) (\<lambda>c. new_gdf (to_crs G c crs)))\<rparr>"

definition inplace_lib :: "('g, 'c) geolib \<Rightarrow> ('g, 'c) storelib" where
  "inplace_lib G =
     \<lparr>clip_store = clip_store (alloc_lib G),
      to_crs_store = (\<lambda>catchments crs.
        seq (the_gdf catchments) (\<lambda>c.
        seq (update_geodata catchments (Catchments (to_crs G c crs))) (\<lambda>u. ret catchments)))\<rparr>"

text \<open>
  Example stores: one that holds a frame of an earlier run, the base map and the catchment
  collection of the interval example; and one with coordinate references that differ.
\<close>

definition example_store :: "(real \<times> real, unit) obj list" where
  "example_store =
     [\<lparr>table = \<lparr>index = [''DE9''], cols = [(''waterbody_perc'', [Fin 1])]\<rparr>, geodata = NoGeodata\<rparr>,
      \<lparr>table = DataFrame, geodata = Polygons interval_huek\<rparr>,
      \<lparr>table = DataFrame, geodata = Catchments interval_catchments\<rparr>]"

definition example_lib_crs :: "(real, nat) geolib" where
  "example_lib_crs = \<lparr>clip = (\<lambda>huek mask. huek), area = (\<lambda>g. g), reproject = (\<lambda>src dst g. g)\<rparr>"

definition example_store_crs :: "(real, nat) obj list" where
  "example_store_crs =
     [\<lparr>table = DataFrame, geodata = Polygons \<lparr>huek_rows = [], huek_crs = 25832\<rparr>\<rparr>,
      \<lparr>table = DataFrame, geodata = Catchments \<lparr>catchment_rows = [], catchment_crs = 4326\<rparr>\<rparr>]"

section \<open>Cells and sums\<close>

lemma foldl_fadd_Fin: "foldl fadd (Fin a) (map Fin xs) = Fin (a + sum_list xs)"
  by (induction xs arbitrary: a) (simp_all add: algebra_simps)

lemma nansum_Fin: "nansum (map Fin xs) = Fin (sum_list xs)"
  by (simp add: nansum_def filter_map comp_def foldl_fadd_Fin)

lemma fadd_nonfin: "\<forall>x. v \<noteq> Fin x \<Longrightarrow> \<forall>x. fadd u v \<noteq> Fin x"
  by (cases u; cases v) simp_all

lemma fadd_nonfin_left: "\<forall>x. u \<noteq> Fin x \<Longrightarrow> \<forall>x. fadd u v \<noteq> Fin x"
  by (cases u; cases v) simp_all

lemma foldl_fadd_nonfin: "\<forall>x. u \<noteq> Fin x \<Longrightarrow> \<forall>x. foldl fadd u vs \<noteq> Fin x"
  by (induction vs arbitrary: u) (simp_all add: fadd_nonfin_left)

lemma nansum_nonfin:
  "list_all (\<lambda>v. \<forall>x. v \<noteq> Fin x) vs \<Longrightarrow> nansum vs = Fin 0 \<or> (\<forall>x. nansum vs \<noteq> Fin x)"
proof (cases "filter (\<lambda>v. v \<noteq> NaN) vs")
  case Nil
  then show ?thesis by (simp add: nansum_def)
next
  case (Cons w ws)
  assume a: "list_all (\<lambda>v. \<forall>x. v \<noteq> Fin x) vs"
  have "w \<in> set (filter (\<lambda>v. v \<noteq> NaN) vs)" using Cons by simp
  then have "w \<in> set vs" by simp
  then have "\<forall>x. w \<noteq> Fin x" using a by (simp add: list_all_iff)
  then have "\<forall>x. fadd (Fin 0) w \<noteq> Fin x" by (rule fadd_nonfin)
  then have "\<forall>x. foldl fadd (fadd (Fin 0) w) ws \<noteq> Fin x" by (rule foldl_fadd_nonfin)
  then show ?thesis using Cons by (simp add: nansum_def)
qed

lemma getitem_list_filter_aux:
  "n \<notin> set names \<Longrightarrow>
   concat (map (\<lambda>k. filter (\<lambda>(m, xs). m = k) ((n, x) # cs)) names) =
   concat (map (\<lambda>k. filter (\<lambda>(m, xs). m = k) cs) names)"
  by (induction names) auto

lemma concat_filter_names:
  "distinct (map fst cs) \<Longrightarrow>
   concat (map (\<lambda>k. filter (\<lambda>(m, xs). m = k) cs) (filter P (map fst cs))) = filter (\<lambda>(m, xs). P m) cs"
proof (induction cs)
  case Nil
  then show ?case by simp
next
  case (Cons c cs)
  obtain n x where c: "c = (n, x)" by (cases c)
  from Cons.prems c have n: "n \<notin> set (map fst cs)" and d: "distinct (map fst cs)" by simp_all
  have n': "n \<notin> set (filter P (map fst cs))" using n by simp
  have f: "filter (\<lambda>(m, xs). m = n) cs = []" using n by (force simp: filter_empty_conv)
  show ?case using Cons.IH [OF d] getitem_list_filter_aux [OF n', of x cs] f
    by (simp add: c)
qed

section \<open>The extractors are table-driven\<close>

lemma setitem_scalar_fresh:
  "n \<notin> set (map fst cs) \<Longrightarrow>
   setitem_scalar \<lparr>index = ids, cols = cs\<rparr> n v = \<lparr>index = ids, cols = cs @ [(n, replicate (length ids) v)]\<rparr>"
  by (simp add: setitem_scalar_def setitem_def columns_def)

lemma DataFrame_index: "DataFrame\<lparr>index := ids\<rparr> = \<lparr>index = ids, cols = []\<rparr>"
  by (simp add: DataFrame_def)

lemma extract_kf_table: "extract_kf_from_huek = extract_table kf_vocab kf_bez ''kf''"
  by (intro ext)
    (simp add: extract_kf_from_huek_def extract_table_def kf_vocab_def Let_def DataFrame_index
      setitem_scalar_fresh cong: sum.case_cong)

lemma extract_ch_table: "extract_ch_from_huek = extract_table ch_vocab LChar_bez ''aqui''"
  by (intro ext)
    (simp add: extract_ch_from_huek_def extract_table_def ch_vocab_def Let_def DataFrame_index
      setitem_scalar_fresh cong: sum.case_cong)

lemma extract_ha_table: "extract_ha_from_huek = extract_table ha_vocab HA_bez ''cavity''"
  by (intro ext)
    (simp add: extract_ha_from_huek_def extract_table_def ha_vocab_def Let_def DataFrame_index
      setitem_scalar_fresh cong: sum.case_cong)

lemma extract_vf_table: "extract_vf_from_huek = extract_table vf_vocab VF_bez ''consolidation''"
  by (intro ext)
    (simp add: extract_vf_from_huek_def extract_table_def vf_vocab_def Let_def DataFrame_index
      setitem_scalar_fresh cong: sum.case_cong)

lemma extract_ga_table: "extract_ga_from_huek = extract_table ga_vocab GA_bez ''rocktype''"
  by (intro ext)
    (simp add: extract_ga_from_huek_def extract_table_def ga_vocab_def Let_def DataFrame_index
      setitem_scalar_fresh cong: sum.case_cong)

lemma extract_gc_table: "extract_gc_from_huek = extract_table gc_vocab GC_bez ''geochemical_rocktype''"
  by (intro ext)
    (simp add: extract_gc_from_huek_def extract_table_def gc_vocab_def Let_def DataFrame_index
      setitem_scalar_fresh cong: sum.case_cong)

lemma extractor_table: "extractor a = extract_table (vocab_of a) (field_of a) (prefix_of a)"
  by (cases a)
    (simp_all add: extract_kf_table extract_ch_table extract_ha_table extract_vf_table
      extract_ga_table extract_gc_table)

lemmas vocab_defs = kf_vocab_def ch_vocab_def ha_vocab_def vf_vocab_def ga_vocab_def gc_vocab_def
  ae_def sz_def ue_def

lemma vocab_distinct: "distinct (map fst (vocab_of a))"
  by (cases a) (simp_all add: vocab_defs)

lemma vocab_labels_distinct: "distinct (map snd (vocab_of a))"
  by (cases a) (simp_all add: vocab_defs)

lemma vocab_prefix: "list_all (\<lambda>(col, label). prefix (prefix_of a) col) (vocab_of a)"
  by (cases a) (simp_all add: vocab_defs)

section \<open>The checker\<close>

lemma assert_almost_equal_100:
  "assert_almost_equal s 100 (Suc 0) = (if within_tolerance s then Inr () else Inl AssertionError)"
  by (cases s) (auto simp: assert_almost_equal_def within_tolerance_def)

lemma sum_axis1_eq:
  "sum_axis1 (getitem_list df names) =
   map (\<lambda>i. nansum (map (\<lambda>(n, xs). xs ! i) (cols (getitem_list df names)))) [0..<length (index df)]"
  by (simp add: sum_axis1_def frame_values_def getitem_list_def)

lemma check_extracted_values_eq:
  "check_extracted_values df category =
     (if index df = [] then Inl IndexError
      else if within_tolerance (prefix_sum df category 0) then Inr () else Inl AssertionError)"
proof (cases "index df = []")
  case True
  then show ?thesis
    by (simp add: check_extracted_values_def sum_axis1_eq iloc0_def)
next
  case False
  then have u: "[0..<length (index df)] = 0 # [Suc 0..<length (index df)]"
    by (simp add: upt_conv_Cons)
  have "iloc0 (sum_axis1 (getitem_list df (filter (\<lambda>col. prefix category col) (columns df))))
      = Inr (prefix_sum df category 0)"
    unfolding sum_axis1_eq u by (simp add: iloc0_def prefix_sum_def)
  then show ?thesis using False
    by (simp add: check_extracted_values_def assert_almost_equal_100)
qed

lemma filter_all: "list_all P xs \<Longrightarrow> filter P xs = xs"
  by (induction xs) simp_all

lemma getitem_list_all:
  assumes "distinct (map fst (cols df))" and "list_all P (map fst (cols df))"
  shows "getitem_list df (filter P (columns df)) = df"
proof -
  have "filter (\<lambda>(m, xs). P m) (cols df) = cols df"
    using assms(2) by (intro filter_all) (simp add: list_all_iff split_beta)
  then show ?thesis
    using concat_filter_names [OF assms(1), of P]
    by (simp add: getitem_list_def columns_def)
qed

lemma table_frame_cols_fst: "map fst (cols (table_frame ids vocab f)) = map fst vocab"
  by (simp add: table_frame_def comp_def split_beta)

lemma table_frame_row:
  "i < length ids \<Longrightarrow>
   map (\<lambda>(n, xs). xs ! i) (cols (table_frame ids vocab f)) = map (\<lambda>(col, label). f label) vocab"
  by (simp add: table_frame_def comp_def split_beta)

lemma table_frame_prefix_sum:
  assumes "distinct (map fst vocab)" and "list_all (\<lambda>(col, label). prefix category col) vocab"
    and "i < length ids"
  shows "prefix_sum (table_frame ids vocab f) category i = nansum (map (\<lambda>(col, label). f label) vocab)"
proof -
  have "list_all (\<lambda>col. prefix category col) (map fst (cols (table_frame ids vocab f)))"
    using assms(2) by (simp add: table_frame_cols_fst list_all_iff split_beta)
  then have "getitem_list (table_frame ids vocab f)
      (filter (\<lambda>col. prefix category col) (columns (table_frame ids vocab f))) = table_frame ids vocab f"
    using assms(1) by (intro getitem_list_all) (simp_all add: table_frame_cols_fst)
  then show ?thesis
    using assms(3) by (simp add: prefix_sum_def table_frame_row)
qed

lemma extract_table_eq:
  assumes "distinct (map fst vocab)" and "list_all (\<lambda>(col, label). prefix category col) vocab"
  shows "extract_table vocab fld category G huek catchment id_field_name =
     (case catchment_getitem catchment id_field_name of
        Inl e \<Rightarrow> Inl e
      | Inr ids \<Rightarrow>
          if ids = [] then Inl IndexError
          else if within_tolerance (nansum (map (\<lambda>(col, label). perc G (clip G huek catchment) fld label) vocab))
          then Inr (table_frame ids vocab (perc G (clip G huek catchment) fld))
          else Inl AssertionError)"
proof (cases "catchment_getitem catchment id_field_name")
  case (Inl e)
  then show ?thesis by (simp add: extract_table_def)
next
  case (Inr ids)
  have t: "\<lparr>index = ids, cols = map (\<lambda>(col, label).
        (col, replicate (length ids) (perc G (clip G huek catchment) fld label))) vocab\<rparr>
      = table_frame ids vocab (perc G (clip G huek catchment) fld)"
    by (simp add: table_frame_def)
  have i: "index (table_frame ids vocab (perc G (clip G huek catchment) fld)) = ids"
    by (simp add: table_frame_def)
  show ?thesis
  proof (cases "ids = []")
    case True
    then show ?thesis using Inr
      by (simp add: extract_table_def t check_extracted_values_eq i)
  next
    case False
    then have "0 < length ids" by simp
    from table_frame_prefix_sum [OF assms this] False Inr show ?thesis
      by (simp add: extract_table_def t check_extracted_values_eq i)
  qed
qed

lemma extractor_eq:
  "extractor a G huek catchment id_field_name =
     (case catchment_getitem catchment id_field_name of
        Inl e \<Rightarrow> Inl e
      | Inr ids \<Rightarrow>
          if ids = [] then Inl IndexError
          else if within_tolerance (nansum (map (\<lambda>(col, label). perc G (clip G huek catchment) (field_of a) label) (vocab_of a)))
          then Inr (table_frame ids (vocab_of a) (perc G (clip G huek catchment) (field_of a)))
          else Inl AssertionError)"
  unfolding extractor_table by (rule extract_table_eq [OF vocab_distinct vocab_prefix])

lemma row_of_fst: "map fst (row_of df i) = columns df"
  by (simp add: row_of_def columns_def comp_def split_beta)

lemma row_of_filter:
  "map (\<lambda>(n, xs). xs ! i) (filter (\<lambda>(m, xs). m = k) cs) =
   map snd (filter (\<lambda>(m, x). m = k) (map (\<lambda>(n, xs). (n, xs ! i)) cs))"
  by (induction cs) auto

lemma prefix_sum_row_of:
  "prefix_sum df category i =
   nansum (map snd (concat (map (\<lambda>k. filter (\<lambda>(m, x). m = k) (row_of df i))
     (filter (\<lambda>col. prefix category col) (map fst (row_of df i))))))"
proof -
  have "map (\<lambda>(n, xs). xs ! i) (concat (map (\<lambda>k. filter (\<lambda>(m, xs). m = k) (cols df)) names)) =
      map snd (concat (map (\<lambda>k. filter (\<lambda>(m, x). m = k) (row_of df i)) names))" for names
    by (induction names) (simp_all add: row_of_filter row_of_def)
  then show ?thesis
    by (simp add: prefix_sum_def getitem_list_def row_of_fst)
qed

lemma extractor_returns:
  assumes "extractor a G huek catchment id_field_name = Inr df"
  shows "\<exists>ids. catchment_getitem catchment id_field_name = Inr ids \<and> ids \<noteq> [] \<and>
     within_tolerance (nansum (map (\<lambda>(col, label). perc G (clip G huek catchment) (field_of a) label) (vocab_of a))) \<and>
     df = table_frame ids (vocab_of a) (perc G (clip G huek catchment) (field_of a))"
  using assms unfolding extractor_eq by (auto split: sum.splits if_splits)

lemma table_frame_index: "index (table_frame ids vocab f) = ids"
  by (simp add: table_frame_def)

lemma example_kf_unknown:
  "extract_kf_from_huek example_lib example_huek_unknown example_gdf ''gauge_id'' =
     Inr (table_frame [''DE1''] kf_vocab (\<lambda>label. Fin (if label = ''stark variabel'' then 9988 / 100 else 0)))"
  unfolding extract_kf_table
  by (subst extract_table_eq)
    (simp_all add: vocab_defs example_lib_def example_huek_unknown_def example_gdf_def
      example_polygon_def example_catchment_def catchment_getitem_def perc_def area_sum_def
      fdiv_def nansum_def within_tolerance_def table_frame_def)

lemma example_kf_unknown_sum:
  "prefix_sum (table_frame [''DE1''] kf_vocab (\<lambda>label. Fin (if label = ''stark variabel'' then 9988 / 100 else 0))) ''kf'' 0
     = Fin (9988 / 100)"
  using vocab_distinct [of KF] vocab_prefix [of KF]
  by (subst table_frame_prefix_sum) (simp_all add: vocab_defs nansum_def)

lemma perc_nonzero:
  "area_sum G (huek_rows clipped) \<noteq> 0 \<Longrightarrow>
   perc G clipped fld label =
     Fin (100 * area_sum G (filter (\<lambda>r. fld r = label) (huek_rows clipped)) / area_sum G (huek_rows clipped))"
  by (simp add: perc_def fdiv_def)

lemma perc_zero: "area_sum G (huek_rows clipped) = 0 \<Longrightarrow> \<forall>x. perc G clipped fld label \<noteq> Fin x"
  by (simp add: perc_def fdiv_def)

lemma not_within_tolerance_nonfin:
  "list_all (\<lambda>v. \<forall>x. v \<noteq> Fin x) vs \<Longrightarrow> \<not> within_tolerance (nansum vs)"
  using nansum_nonfin [of vs] by (cases "nansum vs") (auto simp: within_tolerance_def)

lemma extractor_zero_area:
  assumes "area_sum G (huek_rows (clip G huek catchment)) = 0"
  shows "extractor a G huek catchment id_field_name =
     (case catchment_getitem catchment id_field_name of
        Inl e \<Rightarrow> Inl e
      | Inr ids \<Rightarrow> if ids = [] then Inl IndexError else Inl AssertionError)"
proof -
  have "list_all (\<lambda>v. \<forall>x. v \<noteq> Fin x)
      (map (\<lambda>(col, label). perc G (clip G huek catchment) (field_of a) label) (vocab_of a))"
    using perc_zero [OF assms] by (simp add: list_all_iff split_beta)
  from not_within_tolerance_nonfin [OF this] show ?thesis
    by (simp add: extractor_eq split: sum.splits)
qed

lemma getitem_table_frame:
  assumes "distinct (map fst vocab)" and "(col, label) \<in> set vocab"
  shows "getitem (table_frame ids vocab f) col = Inr (replicate (length ids) (f label))"
proof -
  have "distinct (map fst (map (\<lambda>(col, label). (col, replicate (length ids) (f label))) vocab))"
    using assms(1) by (simp add: comp_def split_beta)
  moreover have "(col, replicate (length ids) (f label)) \<in>
      set (map (\<lambda>(col, label). (col, replicate (length ids) (f label))) vocab)"
    using assms(2) by force
  ultimately have "map_of (map (\<lambda>(col, label). (col, replicate (length ids) (f label))) vocab) col =
      Some (replicate (length ids) (f label))"
    by (rule map_of_is_SomeI)
  then show ?thesis by (simp add: getitem_def table_frame_def)
qed

lemma sum_list_indicator_absent:
  "v \<notin> snd ` set ps \<Longrightarrow> sum_list (map (\<lambda>(c, l). if l = v then (100::real) else 0) ps) = 0"
  by (induction ps) auto

lemma sum_list_indicator:
  "distinct (map snd vocab) \<Longrightarrow> (col, v) \<in> set vocab \<Longrightarrow>
   sum_list (map (\<lambda>(c, l). if l = v then (100::real) else 0) vocab) = 100"
proof (induction vocab)
  case Nil
  then show ?case by simp
next
  case (Cons p ps)
  obtain c l where p: "p = (c, l)" by (cases p)
  show ?case
  proof (cases "l = v")
    case True
    then have "v \<notin> snd ` set ps" using Cons.prems(1) p by simp
    from sum_list_indicator_absent [OF this] show ?thesis using True p by simp
  next
    case False
    then show ?thesis using Cons p by auto
  qed
qed

lemma nansum_Fin_pairs:
  "nansum (map (\<lambda>(c, l). Fin (g l)) V) = Fin (sum_list (map (\<lambda>(c, l). g l) V))"
proof -
  have "map (\<lambda>(c, l). Fin (g l)) V = map Fin (map (\<lambda>(c, l). g l) V)"
    by (simp add: split_beta)
  then show ?thesis by (simp only: nansum_Fin)
qed

lemma single_polygon_perc:
  assumes "huek_rows clipped = [r]" and "area G (geom r) \<noteq> 0"
  shows "perc G clipped fld label = Fin (if label = fld r then 100 else 0)"
  using assms by (simp add: perc_def fdiv_def area_sum_def)

section \<open>The merged row, the loop and the table\<close>

lemma merge_catchment_collapse:
  "merge_catchment G huek idf row =
     (let catchment = \<lparr>catchment_rows = [row], catchment_crs = huek_crs huek\<rparr>
      in case extract_ch_from_huek G huek catchment idf of Inl e \<Rightarrow> Inl e | Inr df_ch \<Rightarrow>
        (case extract_kf_from_huek G huek catchment idf of Inl e \<Rightarrow> Inl e | Inr df_kf \<Rightarrow>
        (case extract_ha_from_huek G huek catchment idf of Inl e \<Rightarrow> Inl e | Inr df_ha \<Rightarrow>
        (case extract_ga_from_huek G huek catchment idf of Inl e \<Rightarrow> Inl e | Inr df_ga \<Rightarrow>
        (case extract_vf_from_huek G huek catchment idf of Inl e \<Rightarrow> Inl e | Inr df_vf \<Rightarrow>
        (case extract_gc_from_huek G huek catchment idf of Inl e \<Rightarrow> Inl e | Inr df_gc \<Rightarrow>
        (case collapse (concat_axis1 [df_kf, df_ch, df_ha, df_vf, df_ga, df_gc]) ''waterbody'' ''waterbody_perc'' of
           Inl e \<Rightarrow> Inl e
         | Inr df \<Rightarrow> collapse df ''no_data'' ''no_data_perc'')))))))"
  unfolding merge_catchment_def collapse_def Let_def
  by (simp split: sum.splits)

lemma len_set_Nil: "len_set [] = 0"
  by (simp add: len_set_def)

lemma frame_values_one_row:
  "frame_values \<lparr>index = [g], cols = cs\<rparr> = [map (\<lambda>(n, xs). xs ! 0) cs]"
  by (simp add: frame_values_def)

lemma getitem_list_filter:
  "distinct (map fst cs) \<Longrightarrow>
   getitem_list \<lparr>index = ids, cols = cs\<rparr> (filter P (columns \<lparr>index = ids, cols = cs\<rparr>)) =
     \<lparr>index = ids, cols = filter (\<lambda>(m, xs). P m) cs\<rparr>"
  using concat_filter_names [of cs P] by (simp add: getitem_list_def columns_def)

lemma getitem_member:
  assumes "distinct (map fst cs)" and "p \<in> set cs"
  shows "getitem \<lparr>index = ids, cols = cs\<rparr> (fst p) = Inr (snd p)"
proof -
  have "map_of cs (fst p) = Some (snd p)"
    using assms by (intro map_of_is_SomeI) simp_all
  then show ?thesis by (simp add: getitem_def)
qed

lemma drop_cols_filter:
  assumes "name \<notin> set (map fst cs)"
  shows "drop_cols \<lparr>index = ids, cols = cs @ [(name, s)]\<rparr> (filter P (map fst cs)) =
     \<lparr>index = ids, cols = filter (\<lambda>(n, xs). \<not> P n) cs @ [(name, s)]\<rparr>"
proof -
  have "filter (\<lambda>(n, xs). n \<notin> set (filter P (map fst cs))) cs = filter (\<lambda>(n, xs). \<not> P n) cs"
    by (intro filter_cong) force+
  then show ?thesis using assms by (simp add: drop_cols_def)
qed

lemma collapse_one_row:
  assumes d: "distinct (map fst cs)" and n: "name \<notin> set (map fst cs)"
  shows "collapse \<lparr>index = [g], cols = cs\<rparr> key name =
     (if len_set (map (\<lambda>(n, xs). xs ! 0) (filter (\<lambda>(n, xs). sublist key n) cs)) \<noteq> 1
      then Inl AssertionError
      else Inr \<lparr>index = [g],
                cols = filter (\<lambda>(n, xs). \<not> sublist key n) cs @
                  [(name, snd (hd (filter (\<lambda>(n, xs). sublist key n) cs)))]\<rparr>)"
proof -
  define df where "df = \<lparr>index = [g], cols = cs\<rparr>"
  define sel where "sel = filter (\<lambda>(n, xs). sublist key n) cs"
  define K where "K = filter (\<lambda>col. sublist key col) (map fst cs)"
  have k: "filter (\<lambda>col. sublist key col) (columns df) = K"
    by (simp add: K_def df_def columns_def)
  have "concat (frame_values (getitem_list \<lparr>index = [g], cols = cs\<rparr>
      (filter (\<lambda>col. sublist key col) (columns \<lparr>index = [g], cols = cs\<rparr>)))) =
      map (\<lambda>(n, xs). xs ! 0) (filter (\<lambda>(n, xs). sublist key n) cs)"
    by (simp add: getitem_list_filter [OF d] frame_values_one_row)
  then have v: "concat (frame_values (getitem_list df K)) = map (\<lambda>(n, xs). xs ! 0) sel"
    by (simp add: K_def df_def sel_def columns_def)
  show ?thesis
  proof (cases "len_set (map (\<lambda>(n, xs). xs ! 0) sel) = 1")
    case False
    then have "collapse df key name = Inl AssertionError"
      by (simp add: collapse_def k v)
    then show ?thesis using False by (simp add: df_def sel_def)
  next
    case True
    then have ne: "sel \<noteq> []" by (auto simp: len_set_Nil)
    then obtain p ps where sel: "sel = p # ps" by (cases sel) auto
    then have "p \<in> set sel" by simp
    then have p: "p \<in> set cs" by (simp add: sel_def)
    have "K = map fst sel"
      by (simp add: K_def sel_def filter_map comp_def case_prod_unfold)
    then have i: "iloc0 K = Inr (fst p)"
      by (simp add: sel iloc0_def)
    have g: "getitem df (fst p) = Inr (snd p)"
      unfolding df_def by (rule getitem_member [OF d p])
    have s: "setitem df name (snd p) = \<lparr>index = [g], cols = cs @ [(name, snd p)]\<rparr>"
      using n by (simp add: setitem_def columns_def df_def)
    have dr: "drop_cols \<lparr>index = [g], cols = cs @ [(name, snd p)]\<rparr> K =
        \<lparr>index = [g], cols = filter (\<lambda>(n, xs). \<not> sublist key n) cs @ [(name, snd p)]\<rparr>"
      unfolding K_def by (rule drop_cols_filter [OF n])
    have "collapse df key name =
        Inr \<lparr>index = [g], cols = filter (\<lambda>(n, xs). \<not> sublist key n) cs @ [(name, snd p)]\<rparr>"
      using True by (simp add: collapse_def k v i g s dr)
    moreover have "hd sel = p" by (simp add: sel)
    ultimately show ?thesis using True by (simp add: df_def sel_def)
  qed
qed

lemma tagged_distinct: "distinct (map (\<lambda>(a, col, label). col) tagged_vocab)"
  by code_simp

lemma tagged_fresh_waterbody: "''waterbody_perc'' \<notin> set (map (\<lambda>(a, col, label). col) tagged_vocab)"
  by code_simp

lemma tagged_waterbody:
  "filter (\<lambda>(a, col, label). sublist ''waterbody'' col) tagged_vocab =
     [(KF, ''kf_waterbody_perc'', waterbody_label), (CH, ''aquifer_waterbody_perc'', waterbody_label),
      (HA, ''cavity_waterbody_perc'', waterbody_label), (VF, ''consolidation_waterbody_perc'', waterbody_label),
      (GA, ''rocktype_waterbody_perc'', waterbody_label),
      (GC, ''geochemical_rocktype_waterbody_perc'', waterbody_label)]"
  by code_simp

lemma rest_distinct:
  "distinct (map (\<lambda>(a, col, label). col)
     (filter (\<lambda>(a, col, label). \<not> sublist ''waterbody'' col) tagged_vocab) @ [''waterbody_perc''])"
  by code_simp

lemma rest_fresh_no_data:
  "''no_data_perc'' \<notin> set (map (\<lambda>(a, col, label). col)
     (filter (\<lambda>(a, col, label). \<not> sublist ''waterbody'' col) tagged_vocab) @ [''waterbody_perc''])"
  by code_simp

lemma rest_no_data:
  "filter (\<lambda>(a, col, label). sublist ''no_data'' col)
     (filter (\<lambda>(a, col, label). \<not> sublist ''waterbody'' col) tagged_vocab) =
     [(KF, ''kf_no_data_perc'', no_data_label), (CH, ''aquifer_no_data_perc'', no_data_label),
      (HA, ''cavity_no_data_perc'', no_data_label), (VF, ''consolidation_no_data_perc'', no_data_label),
      (GA, ''rocktype_no_data_perc'', no_data_label),
      (GC, ''geochemical_rocktype_no_data_perc'', no_data_label)]"
  by code_simp

lemma waterbody_perc_no_data: "\<not> sublist ''no_data'' ''waterbody_perc''"
  by code_simp

lemma rest_plain:
  "filter (\<lambda>(a, col, label). \<not> sublist ''no_data'' col)
     (filter (\<lambda>(a, col, label). \<not> sublist ''waterbody'' col) tagged_vocab) = plain_vocab"
  by (simp add: plain_vocab_def case_prod_unfold conj_commute)

lemma table_frame_tagged:
  "cols (table_frame [g] (vocab_of a) (F a)) =
     map (\<lambda>(a, col, label). (col, [F a label])) (map (\<lambda>(col, label). (a, col, label)) (vocab_of a))"
  by (simp add: table_frame_def comp_def case_prod_unfold)

lemma concat_axis1_tables:
  "concat_axis1 [table_frame [g] kf_vocab (F KF), table_frame [g] ch_vocab (F CH),
       table_frame [g] ha_vocab (F HA), table_frame [g] vf_vocab (F VF),
       table_frame [g] ga_vocab (F GA), table_frame [g] gc_vocab (F GC)] =
     \<lparr>index = [g], cols = map (\<lambda>(a, col, label). (col, [F a label])) tagged_vocab\<rparr>"
  using table_frame_tagged [of g KF F] table_frame_tagged [of g CH F] table_frame_tagged [of g HA F]
    table_frame_tagged [of g VF F] table_frame_tagged [of g GA F] table_frame_tagged [of g GC F]
  by (simp add: concat_axis1_def tagged_vocab_def attributes_def table_frame_index)

lemma filter_cells:
  "filter (\<lambda>(n, xs). P n) (map (\<lambda>(a, col, label). (col, [F a label])) T) =
     map (\<lambda>(a, col, label). (col, [F a label])) (filter (\<lambda>(a, col, label). P col) T)"
  by (simp add: filter_map comp_def case_prod_unfold)

lemma fst_cells:
  "map fst (map (\<lambda>(a, col, label). (col, [F a label])) T) = map (\<lambda>(a, col, label). col) T"
  by (simp add: comp_def case_prod_unfold)

lemma collapse_waterbody:
  "collapse \<lparr>index = [g], cols = map (\<lambda>(a, col, label). (col, [F a label])) tagged_vocab\<rparr>
       ''waterbody'' ''waterbody_perc'' =
     (if len_set (map (\<lambda>a. F a waterbody_label) attributes) \<noteq> 1 then Inl AssertionError
      else Inr \<lparr>index = [g],
        cols = map (\<lambda>(a, col, label). (col, [F a label]))
                 (filter (\<lambda>(a, col, label). \<not> sublist ''waterbody'' col) tagged_vocab) @
               [(''waterbody_perc'', [F KF waterbody_label])]\<rparr>)"
proof -
  have d: "distinct (map fst (map (\<lambda>(a, col, label). (col, [F a label])) tagged_vocab))"
    unfolding fst_cells by (rule tagged_distinct)
  have n: "''waterbody_perc'' \<notin> set (map fst (map (\<lambda>(a, col, label). (col, [F a label])) tagged_vocab))"
    unfolding fst_cells by (rule tagged_fresh_waterbody)
  show ?thesis
    unfolding collapse_one_row [OF d n] filter_cells tagged_waterbody
    by (simp add: attributes_def)
qed

lemma collapse_no_data:
  "collapse \<lparr>index = [g],
        cols = map (\<lambda>(a, col, label). (col, [F a label]))
                 (filter (\<lambda>(a, col, label). \<not> sublist ''waterbody'' col) tagged_vocab) @
               [(''waterbody_perc'', [w])]\<rparr>
       ''no_data'' ''no_data_perc'' =
     (if len_set (map (\<lambda>a. F a no_data_label) attributes) \<noteq> 1 then Inl AssertionError
      else Inr \<lparr>index = [g],
        cols = map (\<lambda>(a, col, label). (col, [F a label])) plain_vocab @
               [(''waterbody_perc'', [w]), (''no_data_perc'', [F KF no_data_label])]\<rparr>)"
proof -
  let ?cs = "map (\<lambda>(a, col, label). (col, [F a label]))
                 (filter (\<lambda>(a, col, label). \<not> sublist ''waterbody'' col) tagged_vocab) @
               [(''waterbody_perc'', [w])]"
  have f: "map fst ?cs = map (\<lambda>(a, col, label). col)
     (filter (\<lambda>(a, col, label). \<not> sublist ''waterbody'' col) tagged_vocab) @ [''waterbody_perc'']"
    by (simp add: fst_cells)
  have d: "distinct (map fst ?cs)"
    unfolding f by (rule rest_distinct)
  have n: "''no_data_perc'' \<notin> set (map fst ?cs)"
    unfolding f by (rule rest_fresh_no_data)
  have s: "filter (\<lambda>(n, xs). sublist ''no_data'' n) ?cs =
      map (\<lambda>(a, col, label). (col, [F a label]))
        (filter (\<lambda>(a, col, label). sublist ''no_data'' col)
          (filter (\<lambda>(a, col, label). \<not> sublist ''waterbody'' col) tagged_vocab))"
    using waterbody_perc_no_data by (simp add: filter_cells)
  have r: "filter (\<lambda>(n, xs). \<not> sublist ''no_data'' n) ?cs =
      map (\<lambda>(a, col, label). (col, [F a label])) plain_vocab @ [(''waterbody_perc'', [w])]"
    using waterbody_perc_no_data by (simp add: filter_cells rest_plain del: filter_filter)
  show ?thesis
    unfolding collapse_one_row [OF d n] s r rest_no_data
    by (simp add: attributes_def)
qed

lemma merge_frames:
  "(case collapse (concat_axis1 [table_frame [g] kf_vocab (F KF), table_frame [g] ch_vocab (F CH),
         table_frame [g] ha_vocab (F HA), table_frame [g] vf_vocab (F VF),
         table_frame [g] ga_vocab (F GA), table_frame [g] gc_vocab (F GC)]) ''waterbody'' ''waterbody_perc'' of
      Inl e \<Rightarrow> Inl e
    | Inr df \<Rightarrow> collapse df ''no_data'' ''no_data_perc'') =
   (if len_set (map (\<lambda>a. F a waterbody_label) attributes) \<noteq> 1 then Inl AssertionError
    else if len_set (map (\<lambda>a. F a no_data_label) attributes) \<noteq> 1 then Inl AssertionError
    else Inr (merged_frame g F))"
  unfolding concat_axis1_tables collapse_waterbody
  by (simp add: collapse_no_data merged_frame_def)

lemma single_catchment_getitem:
  "catchment_getitem (single_catchment huek row) idf =
     (case map_of (attrs row) idf of None \<Rightarrow> Inl KeyError | Some g \<Rightarrow> Inr [g])"
  by (auto simp: catchment_getitem_def single_catchment_def split: option.splits)

lemma cell_eq: "cell G huek row a = perc G (clip G huek (single_catchment huek row)) (field_of a)"
  by (intro ext) (simp add: cell_def)

lemma extractor_single:
  "extractor a G huek (single_catchment huek row) idf =
     (case map_of (attrs row) idf of
        None \<Rightarrow> Inl KeyError
      | Some g \<Rightarrow>
          if field_ok G huek row a then Inr (table_frame [g] (vocab_of a) (cell G huek row a))
          else Inl AssertionError)"
  by (simp add: extractor_eq single_catchment_getitem field_ok_def cell_eq split: option.splits)

lemma six_results:
  "(case (if b1 then Inr x1 else Inl AssertionError) of Inl e \<Rightarrow> Inl e | Inr d1 \<Rightarrow>
   (case (if b2 then Inr x2 else Inl AssertionError) of Inl e \<Rightarrow> Inl e | Inr d2 \<Rightarrow>
   (case (if b3 then Inr x3 else Inl AssertionError) of Inl e \<Rightarrow> Inl e | Inr d3 \<Rightarrow>
   (case (if b4 then Inr x4 else Inl AssertionError) of Inl e \<Rightarrow> Inl e | Inr d4 \<Rightarrow>
   (case (if b5 then Inr x5 else Inl AssertionError) of Inl e \<Rightarrow> Inl e | Inr d5 \<Rightarrow>
   (case (if b6 then Inr x6 else Inl AssertionError) of Inl e \<Rightarrow> Inl e | Inr d6 \<Rightarrow>
      k d1 d2 d3 d4 d5 d6)))))) =
   (if b1 \<and> b2 \<and> b3 \<and> b4 \<and> b5 \<and> b6 then k x1 x2 x3 x4 x5 x6 else Inl AssertionError)"
  by simp

lemma merge_catchment_extractors:
  "merge_catchment G huek idf row =
     (case extractor CH G huek (single_catchment huek row) idf of Inl e \<Rightarrow> Inl e | Inr df_ch \<Rightarrow>
     (case extractor KF G huek (single_catchment huek row) idf of Inl e \<Rightarrow> Inl e | Inr df_kf \<Rightarrow>
     (case extractor HA G huek (single_catchment huek row) idf of Inl e \<Rightarrow> Inl e | Inr df_ha \<Rightarrow>
     (case extractor GA G huek (single_catchment huek row) idf of Inl e \<Rightarrow> Inl e | Inr df_ga \<Rightarrow>
     (case extractor VF G huek (single_catchment huek row) idf of Inl e \<Rightarrow> Inl e | Inr df_vf \<Rightarrow>
     (case extractor GC G huek (single_catchment huek row) idf of Inl e \<Rightarrow> Inl e | Inr df_gc \<Rightarrow>
     (case collapse (concat_axis1 [df_kf, df_ch, df_ha, df_vf, df_ga, df_gc]) ''waterbody'' ''waterbody_perc'' of
        Inl e \<Rightarrow> Inl e
      | Inr df \<Rightarrow> collapse df ''no_data'' ''no_data_perc'')))))))"
  by (simp only: merge_catchment_collapse Let_def extractor.simps single_catchment_def)

lemma merge_catchment_eq:
  "merge_catchment G huek idf row =
     (case map_of (attrs row) idf of
        None \<Rightarrow> Inl KeyError
      | Some g \<Rightarrow>
          if \<not> list_all (field_ok G huek row) attributes then Inl AssertionError
          else if len_set (map (\<lambda>a. cell G huek row a waterbody_label) attributes) \<noteq> 1 then Inl AssertionError
          else if len_set (map (\<lambda>a. cell G huek row a no_data_label) attributes) \<noteq> 1 then Inl AssertionError
          else Inr (merged_frame g (cell G huek row)))"
proof (cases "map_of (attrs row) idf")
  case None
  then have "extractor CH G huek (single_catchment huek row) idf = Inl KeyError"
    by (simp only: extractor_single option.case)
  then show ?thesis using None
    by (simp only: merge_catchment_extractors sum.case option.case)
next
  case (Some g)
  have x: "extractor a G huek (single_catchment huek row) idf =
      (if field_ok G huek row a then Inr (table_frame [g] (vocab_of a) (cell G huek row a))
       else Inl AssertionError)" for a
    using Some by (simp add: extractor_single)
  have l: "list_all (field_ok G huek row) attributes \<longleftrightarrow>
      field_ok G huek row CH \<and> field_ok G huek row KF \<and> field_ok G huek row HA \<and>
      field_ok G huek row GA \<and> field_ok G huek row VF \<and> field_ok G huek row GC"
    by (auto simp: attributes_def)
  have "merge_catchment G huek idf row =
      (if list_all (field_ok G huek row) attributes
       then (case collapse (concat_axis1 [table_frame [g] (vocab_of KF) (cell G huek row KF),
               table_frame [g] (vocab_of CH) (cell G huek row CH),
               table_frame [g] (vocab_of HA) (cell G huek row HA),
               table_frame [g] (vocab_of VF) (cell G huek row VF),
               table_frame [g] (vocab_of GA) (cell G huek row GA),
               table_frame [g] (vocab_of GC) (cell G huek row GC)]) ''waterbody'' ''waterbody_perc'' of
          Inl e \<Rightarrow> Inl e
        | Inr df \<Rightarrow> collapse df ''no_data'' ''no_data_perc'')
       else Inl AssertionError)"
    by (simp only: merge_catchment_extractors x six_results l)
  also have "\<dots> = (if list_all (field_ok G huek row) attributes
       then (if len_set (map (\<lambda>a. cell G huek row a waterbody_label) attributes) \<noteq> 1 then Inl AssertionError
          else if len_set (map (\<lambda>a. cell G huek row a no_data_label) attributes) \<noteq> 1 then Inl AssertionError
          else Inr (merged_frame g (cell G huek row)))
       else Inl AssertionError)"
    using merge_frames [of g "cell G huek row"] by (simp only: vocab_of.simps)
  finally show ?thesis using Some by simp
qed

lemma waterbody_column_vocab: "(waterbody_column a, waterbody_label) \<in> set (vocab_of a)"
  by (cases a) (simp_all add: vocab_defs waterbody_label_def)

lemma no_data_column_vocab: "(no_data_column a, no_data_label) \<in> set (vocab_of a)"
  by (cases a) (simp_all add: vocab_defs no_data_label_def)

lemma attributes_all: "a \<in> set attributes"
  by (cases a) (simp_all add: attributes_def)

lemma len_set_no_nan:
  assumes "list_all (\<lambda>v. v \<noteq> NaN) vs" and "vs \<noteq> []"
  shows "len_set vs = 1 \<longleftrightarrow> (\<forall>v\<in>set vs. v = hd vs)"
proof -
  from assms(1) have f1: "filter (\<lambda>v. v \<noteq> NaN) vs = vs"
    by (simp add: list_all_iff)
  from assms(1) have f2: "filter (\<lambda>v. v = NaN) vs = []"
    by (simp add: list_all_iff filter_empty_conv)
  have l: "len_set vs = card (set vs)"
    unfolding len_set_def f1 f2 by (simp add: length_remdups_card_conv)
  have h: "hd vs \<in> set vs" using assms(2) by simp
  have "card (set vs) = 1 \<longleftrightarrow> (\<forall>v\<in>set vs. v = hd vs)"
  proof
    assume "card (set vs) = 1"
    then obtain y where y: "set vs = {y}" by (auto simp only: card_1_singleton_iff One_nat_def)
    with h have "hd vs = y" by simp
    with y show "\<forall>v\<in>set vs. v = hd vs" by simp
  next
    assume "\<forall>v\<in>set vs. v = hd vs"
    with h have "set vs = {hd vs}" by blast
    then have "card (set vs) = card {hd vs}" by (rule arg_cong)
    then show "card (set vs) = 1" by simp
  qed
  then show ?thesis by (simp only: l)
qed

lemma field_ok_area:
  assumes "field_ok G huek row a"
  shows "area_sum G (huek_rows (clip G huek (single_catchment huek row))) \<noteq> 0"
proof
  assume z: "area_sum G (huek_rows (clip G huek (single_catchment huek row))) = 0"
  have "list_all (\<lambda>v. \<forall>x. v \<noteq> Fin x)
      (map (\<lambda>(col, label). cell G huek row a label) (vocab_of a))"
    using perc_zero [OF z] by (simp add: list_all_iff split_beta cell_def)
  from not_within_tolerance_nonfin [OF this] assms show False
    by (simp add: field_ok_def)
qed

lemma cell_nonzero:
  "area_sum G (huek_rows (clip G huek (single_catchment huek row))) \<noteq> 0 \<Longrightarrow>
   cell G huek row a label \<noteq> NaN"
  by (simp add: cell_def perc_nonzero)

lemma len_set_cells:
  assumes "area_sum G (huek_rows (clip G huek (single_catchment huek row))) \<noteq> 0"
  shows "len_set (map (\<lambda>a. cell G huek row a label) attributes) = 1 \<longleftrightarrow>
     (\<forall>a. cell G huek row a label = cell G huek row KF label)"
proof -
  have n: "list_all (\<lambda>v. v \<noteq> NaN) (map (\<lambda>a. cell G huek row a label) attributes)"
    using cell_nonzero [OF assms] by (simp add: list_all_iff)
  have e: "map (\<lambda>a. cell G huek row a label) attributes \<noteq> []"
    by (simp add: attributes_def)
  have h: "hd (map (\<lambda>a. cell G huek row a label) attributes) = cell G huek row KF label"
    by (simp add: attributes_def)
  show ?thesis
    unfolding len_set_no_nan [OF n e] h using attributes_all by auto
qed

lemma merged_columns_eq: "columns (merged_frame g F) = merged_columns"
  by (simp add: merged_frame_def columns_def merged_columns_def comp_def case_prod_unfold)

lemma merged_columns_distinct: "distinct merged_columns"
  by code_simp

lemma merged_columns_count:
  "count_list merged_columns ''waterbody_perc'' = 1" "count_list merged_columns ''no_data_perc'' = 1"
  by code_simp+

lemma merged_columns_dropped:
  "list_all (\<lambda>a. waterbody_column a \<notin> set merged_columns \<and> no_data_column a \<notin> set merged_columns) attributes"
  by code_simp

lemma merged_frame_getitem:
  "getitem (merged_frame g F) ''waterbody_perc'' = Inr [F KF waterbody_label]"
  "getitem (merged_frame g F) ''no_data_perc'' = Inr [F KF no_data_label]"
proof -
  have d: "distinct (map fst (cols (merged_frame g F)))"
    using merged_columns_distinct merged_columns_eq [of g F] by (simp add: columns_def)
  have "(''waterbody_perc'', [F KF waterbody_label]) \<in> set (cols (merged_frame g F))"
    by (simp add: merged_frame_def)
  from map_of_is_SomeI [OF d this]
  show "getitem (merged_frame g F) ''waterbody_perc'' = Inr [F KF waterbody_label]"
    by (simp add: getitem_def)
  have "(''no_data_perc'', [F KF no_data_label]) \<in> set (cols (merged_frame g F))"
    by (simp add: merged_frame_def)
  from map_of_is_SomeI [OF d this]
  show "getitem (merged_frame g F) ''no_data_perc'' = Inr [F KF no_data_label]"
    by (simp add: getitem_def)
qed

lemma loop_fails:
  "row \<in> set rows \<Longrightarrow> merge_catchment G huek idf row = Inl e \<Longrightarrow>
   \<exists>e'. catchment_loop G huek idf rows acc = Inl e'"
  by (induction rows arbitrary: acc) (auto split: sum.splits)

lemma loop_result:
  "catchment_loop G huek idf rows acc = Inr T \<Longrightarrow>
   \<exists>dfs. list_all2 (\<lambda>row df. merge_catchment G huek idf row = Inr df) rows dfs \<and>
     T = foldl concat_axis0 acc dfs"
proof (induction rows arbitrary: acc)
  case Nil
  then show ?case by simp
next
  case (Cons row rows)
  from Cons.prems obtain df where
    df: "merge_catchment G huek idf row = Inr df"
    and r: "catchment_loop G huek idf rows (concat_axis0 acc df) = Inr T"
    by (auto split: sum.splits)
  from Cons.IH [OF r] obtain dfs where
    "list_all2 (\<lambda>row df. merge_catchment G huek idf row = Inr df) rows dfs"
    "T = foldl concat_axis0 (concat_axis0 acc df) dfs"
    by blast
  then have "list_all2 (\<lambda>row df. merge_catchment G huek idf row = Inr df) (row # rows) (df # dfs) \<and>
      T = foldl concat_axis0 acc (df # dfs)"
    using df by simp
  then show ?case by blast
qed

lemma loop_succeeds:
  "list_all2 (\<lambda>row df. merge_catchment G huek idf row = Inr df) rows dfs \<Longrightarrow>
   catchment_loop G huek idf rows acc = Inr (foldl concat_axis0 acc dfs)"
  by (induction rows dfs arbitrary: acc rule: list_all2_induct) simp_all

lemma concat_axis0_first: "concat_axis0 DataFrame b = vstack (columns b) [b]"
  by (simp add: concat_axis0_def vstack_def DataFrame_def columns_def column_or_nan_def)

lemma vstack_columns: "columns (vstack M ds) = M"
  by (simp add: vstack_def columns_def comp_def)

lemma vstack_column:
  "n \<in> set M \<Longrightarrow> column_or_nan (vstack M ds) n = concat (map (\<lambda>df. column_or_nan df n) ds)"
  by (simp add: column_or_nan_def vstack_def map_of_map_restrict)

lemma concat_axis0_next:
  assumes "columns b = M"
  shows "concat_axis0 (vstack M ds) b = vstack M (ds @ [b])"
proof -
  have "map (\<lambda>n. (n, column_or_nan (vstack M ds) n @ column_or_nan b n)) M =
      map (\<lambda>n. (n, concat (map (\<lambda>df. column_or_nan df n) (ds @ [b])))) M"
    by (rule map_cong) (simp_all add: vstack_column)
  moreover have "index (vstack M ds) @ index b = concat (map index (ds @ [b]))"
    by (simp add: vstack_def)
  ultimately show ?thesis
    by (simp add: concat_axis0_def vstack_columns assms vstack_def [of M "ds @ [b]"])
qed

lemma foldl_vstack:
  "list_all (\<lambda>df. columns df = M) dfs \<Longrightarrow>
   foldl concat_axis0 (vstack M ds) dfs = vstack M (ds @ dfs)"
proof (induction dfs arbitrary: ds)
  case Nil
  then show ?case by simp
next
  case (Cons b dfs)
  then have "foldl concat_axis0 (vstack M (ds @ [b])) dfs = vstack M ((ds @ [b]) @ dfs)"
    by simp
  then show ?case using Cons.prems by (simp add: concat_axis0_next)
qed

lemma foldl_concat_axis0:
  assumes "list_all (\<lambda>df. columns df = M) dfs"
  shows "foldl concat_axis0 DataFrame dfs = (if dfs = [] then DataFrame else vstack M dfs)"
proof (cases dfs)
  case Nil
  then show ?thesis by simp
next
  case (Cons b ds)
  with assms have b: "columns b = M" and ds: "list_all (\<lambda>df. columns df = M) ds" by simp_all
  have "foldl concat_axis0 (vstack M [b]) ds = vstack M ([b] @ ds)"
    by (rule foldl_vstack [OF ds])
  then show ?thesis using Cons b by (simp add: concat_axis0_first)
qed

lemma merge_catchment_Inr:
  assumes "merge_catchment G huek idf row = Inr df"
  shows "\<exists>g. map_of (attrs row) idf = Some g \<and> df = merged_frame g (cell G huek row) \<and>
     list_all (field_ok G huek row) attributes \<and>
     len_set (map (\<lambda>a. cell G huek row a waterbody_label) attributes) = 1 \<and>
     len_set (map (\<lambda>a. cell G huek row a no_data_label) attributes) = 1"
  using assms unfolding merge_catchment_eq by (auto split: option.splits if_splits)

lemma to_crs_attrs:
  "map attrs (catchment_rows (to_crs G catchments crs)) = map attrs (catchment_rows catchments)"
  by (simp add: to_crs_def comp_def)

lemma catchment_getitem_attrs:
  "catchment_getitem c idf =
     (if list_all (\<lambda>a. map_of a idf \<noteq> None) (map attrs (catchment_rows c))
      then Inr (map (\<lambda>a. the (map_of a idf)) (map attrs (catchment_rows c))) else Inl KeyError)"
  by (simp add: catchment_getitem_def list_all_iff comp_def)

lemma merged_rows_index:
  "list_all2 (\<lambda>row df. merge_catchment G huek idf row = Inr df) rows dfs \<Longrightarrow>
   list_all (\<lambda>a. map_of a idf \<noteq> None) (map attrs rows) \<and>
   concat (map index dfs) = map (\<lambda>a. the (map_of a idf)) (map attrs rows) \<and>
   list_all (\<lambda>df. columns df = merged_columns) dfs"
proof (induction rows dfs rule: list_all2_induct)
  case Nil
  then show ?case by simp
next
  case (Cons row rows df dfs)
  from merge_catchment_Inr [OF Cons.hyps(1)] obtain g where
    "map_of (attrs row) idf = Some g" "df = merged_frame g (cell G huek row)" by blast
  then show ?case using Cons.IH
    by (simp add: merged_columns_eq) (simp add: merged_frame_def)
qed

lemmas example_defs = example_lib_def example_catchment_def example_land_def example_water_def
  example_huek_ok_def example_huek_mismatch_def example_catchments_def single_catchment_def
  waterbody_label_def no_data_label_def

lemma example_ok_field_ok: "field_ok example_lib example_huek_ok (example_catchment g) a"
  by (cases a)
    (simp_all add: field_ok_def cell_def perc_def area_sum_def fdiv_def nansum_def
      within_tolerance_def example_defs vocab_defs)

lemma example_ok_waterbody:
  "cell example_lib example_huek_ok (example_catchment g) a waterbody_label = Fin 40"
  by (cases a) (simp_all add: cell_def perc_def area_sum_def fdiv_def example_defs ae_def)

lemma example_ok_no_data:
  "cell example_lib example_huek_ok (example_catchment g) a no_data_label = Fin 0"
  by (cases a) (simp_all add: cell_def perc_def area_sum_def fdiv_def example_defs ae_def)

lemma example_ok_merge:
  "merge_catchment example_lib example_huek_ok ''gauge_id'' (example_catchment g) =
     Inr (merged_frame g (cell example_lib example_huek_ok (example_catchment g)))"
proof -
  have "list_all (field_ok example_lib example_huek_ok (example_catchment g)) attributes"
    by (simp add: list_all_iff example_ok_field_ok)
  moreover have "map_of (attrs (example_catchment g)) ''gauge_id'' = Some g"
    by (simp add: example_catchment_def)
  ultimately show ?thesis
    by (simp add: merge_catchment_eq example_ok_waterbody example_ok_no_data len_set_def attributes_def)
qed

lemma example_mismatch_field_ok: "field_ok example_lib example_huek_mismatch (example_catchment g) a"
  by (cases a)
    (simp_all add: field_ok_def cell_def perc_def area_sum_def fdiv_def nansum_def
      within_tolerance_def example_defs vocab_defs)

lemma example_mismatch_waterbody:
  "cell example_lib example_huek_mismatch (example_catchment g) a waterbody_label =
     Fin (if a = KF then 40 else 0)"
  by (cases a) (simp_all add: cell_def perc_def area_sum_def fdiv_def example_defs ae_def)

lemma example_mismatch_merge:
  "merge_catchment example_lib example_huek_mismatch ''gauge_id'' (example_catchment g) = Inl AssertionError"
proof -
  have "list_all (field_ok example_lib example_huek_mismatch (example_catchment g)) attributes"
    by (simp add: list_all_iff example_mismatch_field_ok)
  moreover have "map_of (attrs (example_catchment g)) ''gauge_id'' = Some g"
    by (simp add: example_catchment_def)
  ultimately show ?thesis
    by (simp add: merge_catchment_eq example_mismatch_waterbody len_set_def attributes_def)
qed

lemma example_to_crs: "to_crs example_lib example_catchments () = example_catchments"
  by (simp add: to_crs_def example_defs)

lemma rint_bound: "\<bar>rint x - x\<bar> \<le> 1 / 2"
proof -
  have "of_int \<lfloor>x\<rfloor> \<le> x" "x < of_int \<lfloor>x\<rfloor> + 1" by linarith+
  then show ?thesis by (auto simp: rint_def Let_def)
qed

lemma rint_int: "\<exists>k::int. rint x = of_int k"
proof -
  have "rint x = of_int \<lfloor>x\<rfloor> \<or> rint x = of_int (\<lfloor>x\<rfloor> + 1)"
    by (simp add: rint_def Let_def)
  then show ?thesis by blast
qed

lemma round_cell_2:
  "\<exists>k::int. round_cell 2 (Fin x) = Fin (of_int k / 100) \<and> \<bar>of_int k / 100 - x\<bar> \<le> 1 / 200"
proof -
  obtain k :: int where k: "rint (x * 100) = of_int k" using rint_int by blast
  have "\<bar>rint (x * 100) - x * 100\<bar> \<le> 1 / 2" by (rule rint_bound)
  then have "\<bar>of_int k / 100 - x\<bar> \<le> 1 / 200" unfolding k by (simp add: field_simps abs_le_iff)
  then show ?thesis using k by auto
qed

lemma aggregator_fails:
  assumes "row \<in> set (catchment_rows (to_crs G catchments (huek_crs huek)))"
    and "merge_catchment G huek idf row = Inl e"
  shows "\<exists>e'. extract_hydrogeology_attributes_huek G huek catchments idf = Inl e'"
proof -
  from loop_fails [OF assms] obtain e' where
    "catchment_loop G huek idf (catchment_rows (to_crs G catchments (huek_crs huek))) DataFrame = Inl e'"
    by blast
  then show ?thesis by (simp add: extract_hydrogeology_attributes_huek_def)
qed

lemma merge_catchment_zero_area:
  assumes "area_sum G (huek_rows (clip G huek (single_catchment huek row))) = 0"
  shows "\<exists>e. merge_catchment G huek idf row = Inl e"
proof -
  have "\<not> field_ok G huek row KF" using field_ok_area [of G huek row KF] assms by blast
  then have "\<not> list_all (field_ok G huek row) attributes" by (simp add: attributes_def)
  then show ?thesis by (simp add: merge_catchment_eq split: option.splits)
qed

lemma aggregator_result:
  assumes "extract_hydrogeology_attributes_huek G huek catchments idf = Inr T"
  shows "\<exists>dfs. list_all2 (\<lambda>row df. merge_catchment G huek idf row = Inr df)
           (catchment_rows (to_crs G catchments (huek_crs huek))) dfs \<and>
         T = round_frame (if dfs = [] then DataFrame else vstack merged_columns dfs) 2 \<and>
         catchment_getitem catchments idf = Inr (concat (map index dfs))"
proof -
  from assms obtain T' where
    l: "catchment_loop G huek idf (catchment_rows (to_crs G catchments (huek_crs huek))) DataFrame = Inr T'"
    and T: "T = round_frame T' 2"
    by (auto simp: extract_hydrogeology_attributes_huek_def split: sum.splits)
  from loop_result [OF l] obtain dfs where
    d: "list_all2 (\<lambda>row df. merge_catchment G huek idf row = Inr df)
           (catchment_rows (to_crs G catchments (huek_crs huek))) dfs"
    and T': "T' = foldl concat_axis0 DataFrame dfs"
    by blast
  from merged_rows_index [OF d] have
    k: "list_all (\<lambda>a. map_of a idf \<noteq> None) (map attrs (catchment_rows catchments))"
    and i: "concat (map index dfs) = map (\<lambda>a. the (map_of a idf)) (map attrs (catchment_rows catchments))"
    and c: "list_all (\<lambda>df. columns df = merged_columns) dfs"
    by (simp_all only: to_crs_attrs)
  have "catchment_getitem catchments idf = Inr (concat (map index dfs))"
    unfolding catchment_getitem_attrs using k i by simp
  moreover have "T = round_frame (if dfs = [] then DataFrame else vstack merged_columns dfs) 2"
    unfolding T T' foldl_concat_axis0 [OF c] ..
  ultimately show ?thesis using d by blast
qed

lemma round_frame_index: "index (round_frame df n) = index df"
  by (simp add: round_frame_def)

lemma round_frame_cols:
  "(n, xs) \<in> set (cols (round_frame df d)) \<longleftrightarrow> (\<exists>ys. (n, ys) \<in> set (cols df) \<and> xs = map (round_cell d) ys)"
  by (auto simp: round_frame_def)

lemma example_ok_extractor:
  "extractor a example_lib example_huek_ok (single_catchment example_huek_ok (example_catchment g)) ''gauge_id'' =
     Inr (table_frame [g] (vocab_of a) (cell example_lib example_huek_ok (example_catchment g) a))"
proof -
  have "map_of (attrs (example_catchment g)) ''gauge_id'' = Some g"
    by (simp add: example_catchment_def)
  then show ?thesis by (simp add: extractor_single example_ok_field_ok)
qed

lemma example_mismatch_extractor:
  "extractor a example_lib example_huek_mismatch
       (single_catchment example_huek_mismatch (example_catchment g)) ''gauge_id'' =
     Inr (table_frame [g] (vocab_of a) (cell example_lib example_huek_mismatch (example_catchment g) a))"
proof -
  have "map_of (attrs (example_catchment g)) ''gauge_id'' = Some g"
    by (simp add: example_catchment_def)
  then show ?thesis by (simp add: extractor_single example_mismatch_field_ok)
qed

lemma example_empty_area:
  "area_sum example_lib (huek_rows (clip example_lib example_huek_empty c)) = 0"
  by (simp add: example_lib_def example_huek_empty_def area_sum_def)

lemma example_to_crs_rows:
  "catchment_rows (to_crs example_lib example_catchments crs) = catchment_rows example_catchments"
  by (simp add: to_crs_def example_defs)

lemma example_run:
  "extract_hydrogeology_attributes_huek example_lib example_huek_ok example_catchments ''gauge_id'' =
     Inr (round_frame (vstack merged_columns
       [merged_frame ''DE1'' (cell example_lib example_huek_ok (example_catchment ''DE1'')),
        merged_frame ''DE2'' (cell example_lib example_huek_ok (example_catchment ''DE2''))]) 2)"
proof -
  have "list_all2 (\<lambda>row df. merge_catchment example_lib example_huek_ok ''gauge_id'' row = Inr df)
      (catchment_rows (to_crs example_lib example_catchments (huek_crs example_huek_ok)))
      [merged_frame ''DE1'' (cell example_lib example_huek_ok (example_catchment ''DE1'')),
       merged_frame ''DE2'' (cell example_lib example_huek_ok (example_catchment ''DE2''))]"
    by (simp add: example_to_crs_rows) (simp add: example_catchments_def example_ok_merge)
  from loop_succeeds [OF this, of DataFrame]
    foldl_concat_axis0 [of merged_columns
      "[merged_frame ''DE1'' (cell example_lib example_huek_ok (example_catchment ''DE1'')),
        merged_frame ''DE2'' (cell example_lib example_huek_ok (example_catchment ''DE2''))]"]
  show ?thesis
    by (simp add: extract_hydrogeology_attributes_huek_def merged_columns_eq)
qed

lemma example_kf_several:
  "extract_kf_from_huek example_lib example_huek_several example_gdf ''gauge_id'' =
     Inr (table_frame [''DE1''] kf_vocab
       (\<lambda>label. Fin (if label = ''stark variabel'' then 75 else if label = waterbody_label then 25 else 0)))"
  unfolding extract_kf_table
  by (subst extract_table_eq)
    (simp_all add: vocab_defs example_lib_def example_huek_several_def example_gdf_def
      example_polygon_def example_catchment_def catchment_getitem_def perc_def area_sum_def
      fdiv_def nansum_def within_tolerance_def table_frame_def waterbody_label_def ae_def sz_def)

lemma getitem_column_or_nan: "getitem df n = Inr xs \<Longrightarrow> column_or_nan df n = xs"
  by (simp add: getitem_def column_or_nan_def split: option.splits)

lemma merged_frame_cell:
  assumes "n \<in> set merged_columns"
  shows "\<exists>c. getitem (merged_frame g F) n = Inr [c]"
proof -
  have d: "distinct (map fst (cols (merged_frame g F)))"
    using merged_columns_distinct merged_columns_eq [of g F] by (simp add: columns_def)
  have "set merged_columns = fst ` set (cols (merged_frame g F))"
    using merged_columns_eq [of g F] by (simp only: columns_def set_map [symmetric])
  with assms have "n \<in> fst ` set (cols (merged_frame g F))" by simp
  then obtain xs where m: "(n, xs) \<in> set (cols (merged_frame g F))" by auto
  then have "\<exists>c. xs = [c]" by (auto simp: merged_frame_def)
  moreover from map_of_is_SomeI [OF d m] have "getitem (merged_frame g F) n = Inr xs"
    by (simp add: getitem_def)
  ultimately show ?thesis by auto
qed

lemma concat_singletons:
  "list_all (\<lambda>d. \<exists>c. f d = [c]) ds \<Longrightarrow>
   length (concat (map f ds)) = length ds \<and> (\<forall>i<length ds. f (ds ! i) = [concat (map f ds) ! i])"
proof (induction ds)
  case Nil
  then show ?case by simp
next
  case (Cons d ds)
  then obtain c where c: "f d = [c]" by auto
  from Cons have IH: "length (concat (map f ds)) = length ds"
    "\<forall>i<length ds. f (ds ! i) = [concat (map f ds) ! i]" by simp_all
  show ?case using c IH by (auto simp: nth_Cons split: nat.splits)
qed

lemma getitem_round_vstack:
  assumes "distinct M" and "n \<in> set M"
  shows "getitem (round_frame (vstack M ds) k) n =
     Inr (map (round_cell k) (concat (map (\<lambda>df. column_or_nan df n) ds)))"
proof -
  let ?cs = "map (\<lambda>(n, xs). (n, map (round_cell k) xs))
      (map (\<lambda>n. (n, concat (map (\<lambda>df. column_or_nan df n) ds))) M)"
  have "distinct (map fst ?cs)" using assms(1) by (simp add: comp_def)
  moreover have "(n, map (round_cell k) (concat (map (\<lambda>df. column_or_nan df n) ds))) \<in> set ?cs"
    using assms(2) by force
  ultimately have "map_of ?cs n = Some (map (round_cell k) (concat (map (\<lambda>df. column_or_nan df n) ds)))"
    by (rule map_of_is_SomeI)
  then show ?thesis by (simp add: getitem_def round_frame_def vstack_def)
qed

lemma round_frame_columns: "columns (round_frame df k) = columns df"
  by (simp add: round_frame_def columns_def comp_def split_beta)

lemma output_rows:
  assumes "list_all2 (\<lambda>row df. merge_catchment G huek idf row = Inr df) rows dfs"
    and "i < length dfs"
  shows "index (round_frame (vstack merged_columns dfs) 2) ! i # [] = index (dfs ! i) \<and>
     columns (dfs ! i) = merged_columns \<and>
     (\<forall>n\<in>set merged_columns. \<exists>c xs. getitem (dfs ! i) n = Inr [c] \<and>
        getitem (round_frame (vstack merged_columns dfs) 2) n = Inr xs \<and>
        length xs = length dfs \<and> xs ! i = round_cell 2 c)"
proof -
  have m: "\<exists>g. df = merged_frame g (cell G huek (rows ! j))" if "j < length dfs" "df = dfs ! j" for j df
  proof -
    from assms(1) that have "merge_catchment G huek idf (rows ! j) = Inr df"
      by (simp add: list_all2_conv_all_nth)
    from merge_catchment_Inr [OF this] show ?thesis by blast
  qed
  have all: "\<exists>g F. df = merged_frame g F" if "df \<in> set dfs" for df
    using that m by (metis in_set_conv_nth)
  have ix: "list_all (\<lambda>d. \<exists>c. index d = [c]) dfs"
  proof -
    have "\<exists>c. index df = [c]" if "df \<in> set dfs" for df
      using all [OF that] by (auto simp: merged_frame_def)
    then show ?thesis by (simp add: list_all_iff)
  qed
  from concat_singletons [OF ix] assms(2)
  have i1: "index (dfs ! i) = [concat (map index dfs) ! i]" by simp
  from m [OF assms(2) refl] obtain g where g: "dfs ! i = merged_frame g (cell G huek (rows ! i))" by blast
  have c: "columns (dfs ! i) = merged_columns" unfolding g by (rule merged_columns_eq)
  have cells: "\<exists>c xs. getitem (dfs ! i) n = Inr [c] \<and>
        getitem (round_frame (vstack merged_columns dfs) 2) n = Inr xs \<and>
        length xs = length dfs \<and> xs ! i = round_cell 2 c" if n: "n \<in> set merged_columns" for n
  proof -
    have s: "list_all (\<lambda>d. \<exists>c. column_or_nan d n = [c]) dfs"
    proof -
      have "\<exists>c. column_or_nan df n = [c]" if "df \<in> set dfs" for df
      proof -
        from all [OF that] obtain g F where df: "df = merged_frame g F" by blast
        from merged_frame_cell [OF n, of g F] obtain c where "getitem df n = Inr [c]"
          unfolding df by blast
        from getitem_column_or_nan [OF this] show ?thesis by blast
      qed
      then show ?thesis by (simp add: list_all_iff)
    qed
    let ?ys = "concat (map (\<lambda>df. column_or_nan df n) dfs)"
    from concat_singletons [OF s] assms(2)
    have l: "length ?ys = length dfs" and e: "column_or_nan (dfs ! i) n = [?ys ! i]" by simp_all
    from merged_frame_cell [OF n, of g "cell G huek (rows ! i)"] obtain c where
      c: "getitem (dfs ! i) n = Inr [c]" unfolding g by blast
    from getitem_column_or_nan [OF c] e have y: "?ys ! i = c" by simp
    have "getitem (round_frame (vstack merged_columns dfs) 2) n = Inr (map (round_cell 2) ?ys)"
      by (rule getitem_round_vstack [OF merged_columns_distinct n])
    moreover have "length (map (round_cell 2) ?ys) = length dfs" using l by simp
    moreover have "map (round_cell 2) ?ys ! i = round_cell 2 c" using l y assms(2) by simp
    ultimately show ?thesis using c by blast
  qed
  show ?thesis using i1 c cells by (simp add: round_frame_index vstack_def)
qed

lemma plain_vocab_eq:
  "plain_vocab =
     [(KF, ''kf_very_high_perc'', ''sehr hoch (>1E-2)''),
      (KF, ''kf_high_perc'', ''hoch (>1E-3 - 1E-2)''),
      (KF, ''kf_medium_perc'', ''mittel (>1E-4 - 1E-3)''),
      (KF, ''kf_moderate_perc'', ''m'' @ ae @ sz @ ''ig (>1E-5 - 1E-4)''),
      (KF, ''kf_low_perc'', ''gering (>1E-7 - 1E-5)''),
      (KF, ''kf_very_low_perc'', ''sehr gering (>1E-9 - 1E-7)''),
      (KF, ''kf_extremely_low_perc'', ae @ ''u'' @ sz @ ''erst gering (<1E-9)''),
      (KF, ''kf_very_high_to_high_perc'', ''sehr hoch bis hoch (>1E-3)''),
      (KF, ''kf_medium_to_moderate_perc'', ''mittel bis m'' @ ae @ sz @ ''ig (>1E-5 - 1E-3)''),
      (KF, ''kf_low_to_extremely_low_perc'', ''gering bis '' @ ae @ ''u'' @ sz @ ''erst gering (<1E-5)''),
      (KF, ''kf_highly_variable_perc'', ''stark variabel''),
      (KF, ''kf_moderate_to_low_perc'', ''m'' @ ae @ sz @ ''ig bis gering (>1E-6 - 1E-4)''),
      (CH, ''aquitard_perc'', ''Grundwasser-Geringleiter''),
      (CH, ''aquifer_perc'', ''Grundwasser-Leiter''),
      (CH, ''aquifer_aquitard_mixed_perc'', ''Grundwasser-Leiter/Geringleiter''),
      (HA, ''cavity_fissure_perc'', ''Kluft''),
      (HA, ''cavity_pores_perc'', ''Poren''),
      (HA, ''cavity_fissure_karst_perc'', ''Kluft/Karst''),
      (HA, ''cavity_fissure_pores_perc'', ''Kluft/Poren''),
      (VF, ''consolidation_solid_rock_perc'', ''Festgestein''),
      (VF, ''consolidation_unconsolidated_rock_perc'', ''Lockergestein''),
      (GA, ''rocktype_sediment_perc'', ''Sediment''),
      (GA, ''rocktype_metamorphite_perc'', ''Metamorphit''),
      (GA, ''rocktype_magmatite_perc'', ''Magmatit''),
      (GC, ''geochemical_rocktype_silicate_perc'', ''silikatisch''),
      (GC, ''geochemical_rocktype_silicate_carbonatic_perc'', ''silikatisch/karbonatisch''),
      (GC, ''geochemical_rocktype_carbonatic_perc'', ''karbonatisch''),
      (GC, ''geochemical_rocktype_sulfatic_perc'', ''sulfatisch''),
      (GC, ''geochemical_rocktype_silicate_organic_components_perc'', ''silikatisch mit organischen Anteilen''),
      (GC, ''geochemical_rocktype_anthropogenically_modified_through_filling_perc'',
         ''durch Auff'' @ ue @ ''llung anthropogen ver'' @ ae @ ''ndert''),
      (GC, ''geochemical_rocktype_sulfatic_halitic_perc'', ''sulfatisch/halitisch''),
      (GC, ''geochemical_rocktype_halitic_perc'', ''halitisch'')]"
  by code_simp

lemmas interval_defs = interval_lib_def interval_land_def interval_water_def interval_huek_def
  interval_catchment_def interval_catchments_def single_catchment_def waterbody_label_def no_data_label_def

lemma interval_clip_DE7:
  "clip interval_lib interval_huek (single_catchment interval_huek (interval_catchment ''DE7'' (0, 3))) =
     \<lparr>huek_rows = [interval_land (0, 2), interval_water (2, 3)], huek_crs = ()\<rparr>"
  by (simp add: interval_defs)

lemma interval_clip_DE2:
  "clip interval_lib interval_huek (single_catchment interval_huek (interval_catchment ''DE2'' (2, 4))) =
     \<lparr>huek_rows = [interval_water (2, 3), interval_land (3, 4)], huek_crs = ()\<rparr>"
  by (simp add: interval_defs)

lemma interval_cell_DE7:
  "cell interval_lib interval_huek (interval_catchment ''DE7'' (0, 3)) a label =
     Fin (if label = field_of a (interval_land (0, 2)) then 200 / 3
          else if label = waterbody_label then 100 / 3 else 0)"
  unfolding cell_def interval_clip_DE7
  by (cases a) (auto simp: perc_def area_sum_def fdiv_def interval_defs interval_lib_def ae_def)

lemma interval_cell_DE2:
  "cell interval_lib interval_huek (interval_catchment ''DE2'' (2, 4)) a label =
     Fin (if label = field_of a (interval_land (0, 2)) then 50
          else if label = waterbody_label then 50 else 0)"
  unfolding cell_def interval_clip_DE2
  by (cases a) (auto simp: perc_def area_sum_def fdiv_def interval_defs interval_lib_def ae_def)

lemma interval_field_ok_DE7: "field_ok interval_lib interval_huek (interval_catchment ''DE7'' (0, 3)) a"
  unfolding field_ok_def interval_cell_DE7
  by (cases a) (simp_all add: nansum_def within_tolerance_def interval_defs vocab_defs ae_def sz_def ue_def)

lemma interval_field_ok_DE2: "field_ok interval_lib interval_huek (interval_catchment ''DE2'' (2, 4)) a"
  unfolding field_ok_def interval_cell_DE2
  by (cases a) (simp_all add: nansum_def within_tolerance_def interval_defs vocab_defs ae_def sz_def ue_def)

lemma interval_merge_DE7:
  "merge_catchment interval_lib interval_huek ''gauge_id'' (interval_catchment ''DE7'' (0, 3)) =
     Inr (merged_frame ''DE7'' (cell interval_lib interval_huek (interval_catchment ''DE7'' (0, 3))))"
proof -
  have "list_all (field_ok interval_lib interval_huek (interval_catchment ''DE7'' (0, 3))) attributes"
    by (simp add: list_all_iff interval_field_ok_DE7)
  moreover have "map_of (attrs (interval_catchment ''DE7'' (0, 3))) ''gauge_id'' = Some ''DE7''"
    by (simp add: interval_catchment_def)
  ultimately show ?thesis
    by (simp add: merge_catchment_eq interval_cell_DE7 len_set_def attributes_def interval_land_def
        waterbody_label_def no_data_label_def ae_def)
qed

lemma interval_merge_DE2:
  "merge_catchment interval_lib interval_huek ''gauge_id'' (interval_catchment ''DE2'' (2, 4)) =
     Inr (merged_frame ''DE2'' (cell interval_lib interval_huek (interval_catchment ''DE2'' (2, 4))))"
proof -
  have "list_all (field_ok interval_lib interval_huek (interval_catchment ''DE2'' (2, 4))) attributes"
    by (simp add: list_all_iff interval_field_ok_DE2)
  moreover have "map_of (attrs (interval_catchment ''DE2'' (2, 4))) ''gauge_id'' = Some ''DE2''"
    by (simp add: interval_catchment_def)
  ultimately show ?thesis
    by (simp add: merge_catchment_eq interval_cell_DE2 len_set_def attributes_def interval_land_def
        waterbody_label_def no_data_label_def ae_def)
qed

lemma rint_6667: "rint (20000 / 3) = 6667"
  by (simp add: rint_def Let_def)

lemma rint_3333: "rint (10000 / 3) = 3333"
  by (simp add: rint_def Let_def)

lemma rint_50: "rint 5000 = 5000"
  by (simp add: rint_def Let_def)

lemma rint_0: "rint 0 = 0"
  by (simp add: rint_def Let_def)

lemma merged_columns_names:
  "merged_columns = map fst (cols interval_table)"
  unfolding interval_table_def by code_simp

lemma interval_rows:
  "round_frame (vstack merged_columns
     [merged_frame ''DE7'' (cell interval_lib interval_huek (interval_catchment ''DE7'' (0, 3))),
      merged_frame ''DE2'' (cell interval_lib interval_huek (interval_catchment ''DE2'' (2, 4)))]) 2 =
   interval_table"
  unfolding merged_columns_names
  by (simp add: interval_table_def round_frame_def vstack_def column_or_nan_def merged_frame_def
      plain_vocab_eq interval_cell_DE7 interval_cell_DE2 interval_land_def waterbody_label_def
      no_data_label_def ae_def sz_def ue_def rint_6667 rint_3333 rint_50 rint_0)

lemma interval_run:
  "extract_hydrogeology_attributes_huek interval_lib interval_huek interval_catchments ''gauge_id'' =
     Inr interval_table"
proof -
  have r: "catchment_rows (to_crs interval_lib interval_catchments (huek_crs interval_huek)) =
      [interval_catchment ''DE7'' (0, 3), interval_catchment ''DE2'' (2, 4)]"
    by (simp add: to_crs_def interval_defs)
  have "list_all2 (\<lambda>row df. merge_catchment interval_lib interval_huek ''gauge_id'' row = Inr df)
      (catchment_rows (to_crs interval_lib interval_catchments (huek_crs interval_huek)))
      [merged_frame ''DE7'' (cell interval_lib interval_huek (interval_catchment ''DE7'' (0, 3))),
       merged_frame ''DE2'' (cell interval_lib interval_huek (interval_catchment ''DE2'' (2, 4)))]"
    unfolding r by (simp add: interval_merge_DE7 interval_merge_DE2)
  from loop_succeeds [OF this, of DataFrame]
    foldl_concat_axis0 [of merged_columns
      "[merged_frame ''DE7'' (cell interval_lib interval_huek (interval_catchment ''DE7'' (0, 3))),
        merged_frame ''DE2'' (cell interval_lib interval_huek (interval_catchment ''DE2'' (2, 4)))]"]
  show ?thesis
    by (simp add: extract_hydrogeology_attributes_huek_def merged_columns_eq interval_rows)
qed

lemma kf_columns:
  "map fst kf_vocab =
     kf_base_columns @
     [''kf_very_high_to_high_perc'', ''kf_medium_to_moderate_perc'', ''kf_low_to_extremely_low_perc'',
      ''kf_highly_variable_perc'', ''kf_moderate_to_low_perc'', ''kf_waterbody_perc'', ''kf_no_data_perc'']"
  by code_simp

lemma kf_range_columns_eq:
  "kf_range_columns =
     [''kf_very_high_to_high_perc'', ''kf_medium_to_moderate_perc'', ''kf_low_to_extremely_low_perc'',
      ''kf_moderate_to_low_perc'']"
  by code_simp

lemma kf_highly_variable_apart:
  "''kf_highly_variable_perc'' \<notin>
     set kf_base_columns \<union> set kf_range_columns \<union> {''kf_waterbody_perc'', ''kf_no_data_perc''}"
  by code_simp

lemma kf_columns_set:
  "set (map fst kf_vocab) =
     set kf_base_columns \<union> set kf_range_columns \<union>
     {''kf_highly_variable_perc'', ''kf_waterbody_perc'', ''kf_no_data_perc''}"
  unfolding kf_columns kf_range_columns_eq by auto

lemma extract_kf_columns:
  assumes "extract_kf_from_huek G huek catchment id_field_name = Inr df"
  shows "columns df = map fst kf_vocab"
proof -
  from assms have "extractor KF G huek catchment id_field_name = Inr df" by simp
  from extractor_returns [OF this] obtain ids where
    "df = table_frame ids (vocab_of KF) (perc G (clip G huek catchment) (field_of KF))" by blast
  then show ?thesis by (simp add: columns_def table_frame_cols_fst)
qed

section \<open>The store: what a run keeps\<close>

lemma keeps_refl: "keeps n h h"
  by (simp add: keeps_def)

lemma keeps_trans: "keeps n h h' \<Longrightarrow> keeps n h' h'' \<Longrightarrow> keeps n h h''"
  by (simp add: keeps_def)

lemma keeps_prefix: "prefix h h' \<Longrightarrow> n \<le> length h \<Longrightarrow> keeps n h h'"
  by (auto simp: keeps_def prefix_def)

lemma keeps_all: "keeps (length h) h h' \<Longrightarrow> prefix h h'"
  by (metis keeps_def take_all_iff order_refl take_is_prefix)

lemma safe_seq:
  assumes "safe n m R" and "\<And>x. R x \<Longrightarrow> safe n (f x) S"
  shows "safe n (seq m f) S"
  unfolding safe_def
proof (intro allI impI, elim conjE)
  fix h res h'
  assume n: "n \<le> length h" and r: "seq m f h = (res, h')"
  obtain r1 h1 where m: "m h = (r1, h1)" by (cases "m h")
  from assms(1) n m have k1: "keeps n h h1" and R: "\<forall>x. r1 = Inr x \<longrightarrow> R x"
    by (auto simp: safe_def)
  show "keeps n h h' \<and> (\<forall>x. res = Inr x \<longrightarrow> S x)"
  proof (cases r1)
    case (Inl e)
    with r m have "res = Inl e" "h' = h1" by (simp_all add: seq_def)
    with k1 show ?thesis by simp
  next
    case (Inr x)
    with r m have f: "f x h1 = (res, h')" by (simp add: seq_def)
    from k1 n have n1: "n \<le> length h1" by (simp add: keeps_def)
    from R Inr have "R x" by simp
    from assms(2) [OF this] n1 f have "keeps n h1 h'" "\<forall>y. res = Inr y \<longrightarrow> S y"
      by (auto simp: safe_def)
    with k1 show ?thesis by (blast intro: keeps_trans)
  qed
qed

lemma safe_weaken: "safe n m R \<Longrightarrow> (\<And>x. R x \<Longrightarrow> S x) \<Longrightarrow> safe n m S"
  by (auto simp: safe_def)

lemma safe_ret: "R x \<Longrightarrow> safe n (ret x) R"
  by (simp add: safe_def ret_def keeps_refl)

lemma safe_raise: "safe n (raise e) R"
  by (simp add: safe_def raise_def keeps_refl)

lemma safe_lift: "safe n (lift r) (\<lambda>x. True)"
  by (auto simp: safe_def lift_def keeps_refl split: sum.splits)

lemma safe_the_obj: "safe n (the_obj r) (\<lambda>x. True)"
  by (auto simp: safe_def the_obj_def keeps_refl split: if_splits)

lemma safe_the_frame: "safe n (the_frame r) (\<lambda>x. True)"
  unfolding the_frame_def by (rule safe_seq [OF safe_the_obj]) (simp add: safe_ret)

lemma safe_the_huek: "safe n (the_huek r) (\<lambda>x. True)"
  unfolding the_huek_def
  by (rule safe_seq [OF safe_the_obj]) (simp add: safe_ret safe_raise split: geodata.splits)

lemma safe_the_gdf: "safe n (the_gdf r) (\<lambda>x. True)"
  unfolding the_gdf_def
  by (rule safe_seq [OF safe_the_obj]) (simp add: safe_ret safe_raise split: geodata.splits)

lemma safe_the_frames: "safe n (the_frames rs) (\<lambda>x. True)"
proof (induction rs)
  case Nil
  then show ?case by (simp add: safe_ret)
next
  case (Cons r rs)
  show ?case
    unfolding the_frames.simps
    by (rule safe_seq [OF safe_the_frame], rule safe_seq [OF Cons], simp add: safe_ret)
qed

lemma safe_new_obj: "safe n (new_obj ob) (\<lambda>x. n \<le> x)"
  by (auto simp: safe_def new_obj_def keeps_def)

lemma safe_new_frame: "safe n (new_frame d) (\<lambda>x. n \<le> x)"
  unfolding new_frame_def by (rule safe_new_obj)

lemma safe_new_gdf: "safe n (new_gdf c) (\<lambda>x. n \<le> x)"
  unfolding new_gdf_def by (rule safe_new_obj)

lemma safe_new_huek: "safe n (new_huek c) (\<lambda>x. n \<le> x)"
  unfolding new_huek_def by (rule safe_new_obj)

lemma safe_update_frame: "n \<le> r \<Longrightarrow> safe n (update_frame r f) (\<lambda>x. True)"
  by (auto simp: safe_def update_frame_def keeps_def split: if_splits)

lemma safe_preserves: "preserves m \<Longrightarrow> safe n m (\<lambda>x. True)"
  by (auto simp: safe_def preserves_def intro: keeps_prefix)

lemma safe_assign_columns:
  "n \<le> df \<Longrightarrow> safe n (assign_columns G clipped field df vocab) (\<lambda>x. True)"
proof (induction vocab)
  case Nil
  then show ?case by (simp add: safe_ret)
next
  case (Cons p vocab)
  obtain col label where p: "p = (col, label)" by (cases p)
  show ?case
    unfolding p assign_columns.simps
    by (rule safe_seq [OF safe_the_huek], rule safe_seq [OF safe_update_frame [OF Cons.prems]],
        rule Cons.IH [OF Cons.prems])
qed

lemma safe_extract_store:
  assumes "lib_preserves L"
  shows "safe n (extract_store vocab field category G L huek catchment idf) (\<lambda>x. n \<le> x)"
proof -
  from assms have c: "preserves (clip_store L huek catchment)" by (simp add: lib_preserves_def)
  show ?thesis
    unfolding extract_store_def
    apply (rule safe_seq [OF safe_preserves [OF c]])
    apply (rule safe_seq [OF safe_new_frame])
    apply (rule safe_seq [OF safe_the_gdf])
    apply (rule safe_seq [OF safe_lift])
    apply (rule safe_seq [OF safe_update_frame], assumption)
    apply (rule safe_seq [OF safe_assign_columns], assumption)
    apply (rule safe_seq [OF safe_the_frame])
    apply (rule safe_seq [OF safe_lift])
    apply (rule safe_ret, assumption)
    done
qed

lemma safe_collapse_store:
  assumes "n \<le> df"
  shows "safe n (collapse_store df key name) (\<lambda>x. True)"
  unfolding collapse_store_def Let_def
  apply (rule safe_seq [OF safe_the_frame])
  apply (simp only: split: if_split)
  apply (intro conjI impI)
   apply (rule safe_raise)
  apply (rule safe_seq [OF safe_lift])
  apply (rule safe_seq [OF safe_lift])
  apply (rule safe_seq [OF safe_update_frame [OF assms]])
  apply (rule safe_update_frame [OF assms])
  done

lemma safe_merge_catchment_store:
  assumes "lib_preserves L"
  shows "safe n (merge_catchment_store G L huek idf row) (\<lambda>x. n \<le> x)"
  unfolding merge_catchment_store_def
  apply (rule safe_seq [OF safe_the_huek])
  apply (rule safe_seq [OF safe_new_gdf])
  apply (rule safe_seq [OF safe_extract_store [OF assms]])
  apply (rule safe_seq [OF safe_extract_store [OF assms]])
  apply (rule safe_seq [OF safe_extract_store [OF assms]])
  apply (rule safe_seq [OF safe_extract_store [OF assms]])
  apply (rule safe_seq [OF safe_extract_store [OF assms]])
  apply (rule safe_seq [OF safe_extract_store [OF assms]])
  apply (rule safe_seq [OF safe_the_frames])
  apply (rule safe_seq [OF safe_new_frame])
  apply (rule safe_seq [OF safe_collapse_store], assumption)
  apply (rule safe_seq [OF safe_collapse_store], assumption)
  apply (rule safe_ret, assumption)
  done

lemma safe_catchment_loop_store:
  assumes "lib_preserves L"
  shows "safe n (catchment_loop_store G L huek idf rows df_all) (\<lambda>x. True)"
proof (induction rows arbitrary: df_all)
  case Nil
  then show ?case by (simp add: safe_ret)
next
  case (Cons row rows)
  show ?case
    unfolding catchment_loop_store.simps
    apply (rule safe_seq [OF safe_merge_catchment_store [OF assms]])
    apply (rule safe_seq [OF safe_the_frames])
    apply (rule safe_seq [OF safe_new_frame])
    apply (rule Cons.IH)
    done
qed

lemma safe_aggregator_store:
  assumes "lib_preserves L"
  shows "safe n (extract_hydrogeology_attributes_huek_store G L huek catchments idf) (\<lambda>x. n \<le> x)"
proof -
  from assms have c: "preserves (to_crs_store L catchments crs)" for crs
    by (simp add: lib_preserves_def)
  show ?thesis
    unfolding extract_hydrogeology_attributes_huek_store_def
    apply (rule safe_seq [OF safe_the_huek])
    apply (rule safe_seq [OF safe_preserves [OF c]])
    apply (rule safe_seq [OF safe_new_frame])
    apply (rule safe_seq [OF safe_the_gdf])
    apply (rule safe_seq [OF safe_catchment_loop_store [OF assms]])
    apply (rule safe_seq [OF safe_the_frame])
    apply (rule safe_new_frame)
    done
qed

lemma alloc_lib_preserves: "lib_preserves (alloc_lib G)"
proof -
  have p: "preserves m" if "safe 0 m R" "\<And>n. safe n m R" for m :: "('a, 'g, 'c) prog" and R
    unfolding preserves_def
  proof (intro allI impI)
    fix h res h'
    assume "m h = (res, h')"
    with that(2) [of "length h"] have "keeps (length h) h h'" by (auto simp: safe_def)
    then show "prefix h h'" by (rule keeps_all)
  qed
  have 1: "safe n (clip_store (alloc_lib G) huek mask) (\<lambda>x. n \<le> x)" for n huek mask
    unfolding alloc_lib_def
    by (simp, rule safe_seq [OF safe_the_huek], rule safe_seq [OF safe_the_gdf], rule safe_new_huek)
  have 2: "safe n (to_crs_store (alloc_lib G) catchments crs) (\<lambda>x. n \<le> x)" for n catchments crs
    unfolding alloc_lib_def
    by (simp, rule safe_seq [OF safe_the_gdf], rule safe_new_gdf)
  show ?thesis
    unfolding lib_preserves_def preserves_def
  proof (intro conjI allI impI)
    fix huek mask h res h'
    assume "clip_store (alloc_lib G) huek mask h = (res, h')"
    with 1 [of "length h" huek mask] have "keeps (length h) h h'" by (auto simp: safe_def)
    then show "prefix h h'" by (rule keeps_all)
  next
    fix catchments crs h res h'
    assume "to_crs_store (alloc_lib G) catchments crs h = (res, h')"
    with 2 [of "length h" catchments crs] have "keeps (length h) h h'" by (auto simp: safe_def)
    then show "prefix h h'" by (rule keeps_all)
  qed
qed

text \<open>
  The store can tell a run that changes its inputs: with the library that reprojects in
  place, the aggregator leaves the caller's catchment collection in the coordinate reference
  of the base map; and an assignment of a column to the address of the base map changes the
  object there.
\<close>

lemma inplace_lib_changes_input:
  "extract_hydrogeology_attributes_huek_store example_lib_crs (inplace_lib example_lib_crs) 0 1
     ''gauge_id'' example_store_crs =
   (Inr 3,
    [\<lparr>table = DataFrame, geodata = Polygons \<lparr>huek_rows = [], huek_crs = 25832\<rparr>\<rparr>,
     \<lparr>table = DataFrame, geodata = Catchments \<lparr>catchment_rows = [], catchment_crs = 25832\<rparr>\<rparr>,
     \<lparr>table = DataFrame, geodata = NoGeodata\<rparr>,
     \<lparr>table = DataFrame, geodata = NoGeodata\<rparr>])"
  by (simp add: extract_hydrogeology_attributes_huek_store_def inplace_lib_def example_store_crs_def
      seq_def the_huek_def the_gdf_def the_obj_def the_frame_def ret_def update_geodata_def
      new_frame_def new_obj_def to_crs_def round_frame_def DataFrame_def)

lemma update_frame_changes_input:
  "update_frame 1 (\<lambda>d. setitem_scalar d ''kf_no_data_perc'' (Fin 0)) example_store =
   (Inr (),
    [\<lparr>table = \<lparr>index = [''DE9''], cols = [(''waterbody_perc'', [Fin 1])]\<rparr>, geodata = NoGeodata\<rparr>,
     \<lparr>table = \<lparr>index = [], cols = [(''kf_no_data_perc'', [])]\<rparr>, geodata = Polygons interval_huek\<rparr>,
     \<lparr>table = DataFrame, geodata = Catchments interval_catchments\<rparr>])"
  by (simp add: update_frame_def example_store_def setitem_scalar_def setitem_def DataFrame_def columns_def)

section \<open>The claims\<close>

text \<open>
  C1, as the program has it. A frame that an extractor returns has at least one row, and in
  every row the cells of the columns with the prefix of the field add up (NaN left out) to
  a finite number that differs from 100 by less than 0.15: the bound of
  \<^verbatim>\<open>assert_almost_equal\<close> with \<^verbatim>\<open>decimal=1\<close> is \<open>1.5 * 10 ^ - 1\<close>, not 0.1. The checker
  raises its AssertionError exactly when the frame has a row and that sum of the first row
  is not finite or is 0.15 or more away from 100; on a frame with no row it raises an
  IndexError.
\<close>

theorem extractor_sum_within_tolerance:
  "(extractor a G huek catchment id_field_name = Inr df \<longrightarrow>
      index df \<noteq> [] \<and>
      list_all (\<lambda>i. within_tolerance (prefix_sum df (prefix_of a) i)) [0..<length (index df)]) \<and>
   (check_extracted_values df' category = Inl AssertionError \<longleftrightarrow>
      index df' \<noteq> [] \<and> \<not> within_tolerance (prefix_sum df' category 0)) \<and>
   (check_extracted_values df' category = Inl IndexError \<longleftrightarrow> index df' = []) \<and>
   (within_tolerance s \<longleftrightarrow> (\<exists>x. s = Fin x \<and> \<bar>100 - x\<bar> < 15 / 100))"
proof -
  have 1: "index df \<noteq> [] \<and>
      list_all (\<lambda>i. within_tolerance (prefix_sum df (prefix_of a) i)) [0..<length (index df)]"
    if "extractor a G huek catchment id_field_name = Inr df"
  proof -
    from extractor_returns [OF that] obtain ids where
      ids: "ids \<noteq> []"
      and tol: "within_tolerance (nansum (map (\<lambda>(col, label).
        perc G (clip G huek catchment) (field_of a) label) (vocab_of a)))"
      and df: "df = table_frame ids (vocab_of a) (perc G (clip G huek catchment) (field_of a))"
      by blast
    have "prefix_sum df (prefix_of a) i = nansum (map (\<lambda>(col, label).
        perc G (clip G huek catchment) (field_of a) label) (vocab_of a))" if "i < length ids" for i
      unfolding df by (rule table_frame_prefix_sum [OF vocab_distinct vocab_prefix that])
    then show ?thesis using ids tol
      by (simp add: df table_frame_index list_all_iff)
  qed
  have 2: "within_tolerance s \<longleftrightarrow> (\<exists>x. s = Fin x \<and> \<bar>100 - x\<bar> < 15 / 100)"
    by (cases s) (simp_all add: within_tolerance_def)
  show ?thesis using 1 2 by (simp add: check_extracted_values_eq)
qed

theorem extractor_sum_within_tolerance_witness:
  "extractor KF example_lib example_huek_unknown example_gdf ''gauge_id'' = Inr (table_frame [''DE1''] kf_vocab (\<lambda>label. Fin (if label = ''stark variabel'' then 9988 / 100 else 0))) \<and>
   index (table_frame [''DE1''] kf_vocab (\<lambda>label. Fin (if label = ''stark variabel'' then 9988 / 100 else 0))) \<noteq> [] \<and>
   list_all (\<lambda>i. within_tolerance (prefix_sum (table_frame [''DE1''] kf_vocab (\<lambda>label. Fin (if label = ''stark variabel'' then 9988 / 100 else 0))) (prefix_of KF) i))
     [0..<length (index (table_frame [''DE1''] kf_vocab (\<lambda>label. Fin (if label = ''stark variabel'' then 9988 / 100 else 0))))] \<and>
   check_extracted_values (table_frame [''DE1''] kf_vocab (\<lambda>label. Fin (if label = ''stark variabel'' then 9988 / 100 else 0))) ''kf'' \<noteq> Inl AssertionError"
  using extractor_sum_within_tolerance [of KF example_lib example_huek_unknown example_gdf "''gauge_id''"
      "table_frame [''DE1''] kf_vocab (\<lambda>label. Fin (if label = ''stark variabel'' then 9988 / 100 else 0))"
      "table_frame [''DE1''] kf_vocab (\<lambda>label. Fin (if label = ''stark variabel'' then 9988 / 100 else 0))" "''kf''" "Fin 100"]
    example_kf_unknown
  by (simp add: table_frame_index)

text \<open>
  C1 as stated fails: the permeability extractor returns a row whose columns add up to
  99.88, which is more than 0.1 away from 100.
\<close>

theorem extractor_tolerance_counterexample:
  "extract_kf_from_huek example_lib example_huek_unknown example_gdf ''gauge_id'' = Inr (table_frame [''DE1''] kf_vocab (\<lambda>label. Fin (if label = ''stark variabel'' then 9988 / 100 else 0))) \<and>
   prefix_sum (table_frame [''DE1''] kf_vocab (\<lambda>label. Fin (if label = ''stark variabel'' then 9988 / 100 else 0))) ''kf'' 0 = Fin (9988 / 100) \<and>
   \<not> \<bar>100 - 9988 / 100\<bar> \<le> (1 / 10 :: real)"
  using example_kf_unknown example_kf_unknown_sum by simp

text \<open>
  C3. Let an extractor return a frame on a clip whose areas do not add up to zero. The
  frame has at least one row, and each of its category columns holds, in every row, the
  value of the expression of the source, \<^verbatim>\<open>(a / b) * 100\<close>, where \<open>a\<close> is the sum of
  the areas of the clipped polygons whose field is the label of the column and \<open>b\<close> is the
  sum of the areas of all clipped polygons; quotient and product are those of the cells
  (\<open>fdiv\<close>, \<open>fscale\<close>), taken in this order. When the clip is a single polygon with a
  label of the vocabulary, the extractor returns 100 in the column of that label and 0 in
  every other column.
\<close>

theorem extractor_percentage_formula:
  "(sum_list (map (\<lambda>r. area G (geom r)) (huek_rows (clip G huek catchment))) \<noteq> 0 \<and>
    extractor a G huek catchment id_field_name = Inr df \<and> (col, label) \<in> set (vocab_of a) \<longrightarrow>
      index df \<noteq> [] \<and>
      getitem df col = Inr (replicate (length (index df))
        (fscale (fdiv
           (sum_list (map (\<lambda>r. area G (geom r))
              (filter (\<lambda>r. field_of a r = label) (huek_rows (clip G huek catchment)))))
           (sum_list (map (\<lambda>r. area G (geom r)) (huek_rows (clip G huek catchment))))) 100))) \<and>
   (huek_rows (clip G huek catchment) = [r] \<and> area G (geom r) \<noteq> 0 \<and>
    (col', field_of a r) \<in> set (vocab_of a) \<and>
    catchment_getitem catchment id_field_name = Inr ids \<and> ids \<noteq> [] \<longrightarrow>
      extractor a G huek catchment id_field_name =
        Inr (table_frame ids (vocab_of a) (\<lambda>label. Fin (if label = field_of a r then 100 else 0))))"
proof (intro conjI impI)
  assume h: "sum_list (map (\<lambda>r. area G (geom r)) (huek_rows (clip G huek catchment))) \<noteq> 0 \<and>
    extractor a G huek catchment id_field_name = Inr df \<and> (col, label) \<in> set (vocab_of a)"
  from extractor_returns [of a G huek catchment id_field_name df] h obtain ids where
    ids: "ids \<noteq> []"
    and df: "df = table_frame ids (vocab_of a) (perc G (clip G huek catchment) (field_of a))"
    by blast
  show "index df \<noteq> []" using ids by (simp add: df table_frame_index)
  from h have "getitem df col = Inr (replicate (length ids) (perc G (clip G huek catchment) (field_of a) label))"
    unfolding df by (intro getitem_table_frame vocab_distinct) simp
  then show "getitem df col = Inr (replicate (length (index df))
        (fscale (fdiv
           (sum_list (map (\<lambda>r. area G (geom r))
              (filter (\<lambda>r. field_of a r = label) (huek_rows (clip G huek catchment)))))
           (sum_list (map (\<lambda>r. area G (geom r)) (huek_rows (clip G huek catchment))))) 100))"
    by (simp add: perc_def area_sum_def df table_frame_index)
next
  assume h: "huek_rows (clip G huek catchment) = [r] \<and> area G (geom r) \<noteq> 0 \<and>
    (col', field_of a r) \<in> set (vocab_of a) \<and>
    catchment_getitem catchment id_field_name = Inr ids \<and> ids \<noteq> []"
  then have p: "perc G (clip G huek catchment) (field_of a) =
      (\<lambda>label. Fin (if label = field_of a r then 100 else 0))"
    by (intro ext single_polygon_perc) simp_all
  have "sum_list (map (\<lambda>(col, label). if label = field_of a r then (100::real) else 0) (vocab_of a)) = 100"
  proof -
    from h have m: "(col', field_of a r) \<in> set (vocab_of a)" by simp
    show ?thesis by (rule sum_list_indicator [OF vocab_labels_distinct m])
  qed
  then have "nansum (map (\<lambda>(col, label). Fin (if label = field_of a r then 100 else 0)) (vocab_of a)) = Fin 100"
    by (simp only: nansum_Fin_pairs)
  then show "extractor a G huek catchment id_field_name =
        Inr (table_frame ids (vocab_of a) (\<lambda>label. Fin (if label = field_of a r then 100 else 0)))"
    using h by (simp add: extractor_eq p within_tolerance_def)
qed

theorem extractor_percentage_formula_witness:
  "sum_list (map (\<lambda>r. area example_lib (geom r))
     (huek_rows (clip example_lib example_huek_several example_gdf))) = 100 \<and>
   sum_list (map (\<lambda>r. area example_lib (geom r))
     (filter (\<lambda>r. field_of KF r = ''stark variabel'')
       (huek_rows (clip example_lib example_huek_several example_gdf)))) = 75 \<and>
   extractor KF example_lib example_huek_several example_gdf ''gauge_id'' =
     Inr (table_frame [''DE1''] kf_vocab
       (\<lambda>label. Fin (if label = ''stark variabel'' then 75 else if label = waterbody_label then 25 else 0))) \<and>
   getitem (table_frame [''DE1''] kf_vocab
       (\<lambda>label. Fin (if label = ''stark variabel'' then 75 else if label = waterbody_label then 25 else 0)))
     ''kf_highly_variable_perc'' = Inr [Fin 75] \<and>
   getitem (table_frame [''DE1''] kf_vocab
       (\<lambda>label. Fin (if label = ''stark variabel'' then 75 else if label = waterbody_label then 25 else 0)))
     ''kf_waterbody_perc'' = Inr [Fin 25] \<and>
   getitem (table_frame [''DE1''] kf_vocab
       (\<lambda>label. Fin (if label = ''stark variabel'' then 75 else if label = waterbody_label then 25 else 0)))
     ''kf_no_data_perc'' = Inr [Fin 0] \<and>
   extractor KF example_lib example_huek_single example_gdf ''gauge_id'' =
     Inr (table_frame [''DE1''] kf_vocab (\<lambda>label. Fin (if label = ''stark variabel'' then 100 else 0)))"
  using
    extractor_percentage_formula [of example_lib example_huek_several example_gdf KF "''gauge_id''"
      "table_frame [''DE1''] kf_vocab
         (\<lambda>label. Fin (if label = ''stark variabel'' then 75 else if label = waterbody_label then 25 else 0))"
      "''kf_highly_variable_perc''" "''stark variabel''" "example_polygon ''stark variabel'' 5"
      "''kf_highly_variable_perc''" "[''DE1'']"]
    extractor_percentage_formula [of example_lib example_huek_several example_gdf KF "''gauge_id''"
      "table_frame [''DE1''] kf_vocab
         (\<lambda>label. Fin (if label = ''stark variabel'' then 75 else if label = waterbody_label then 25 else 0))"
      "''kf_waterbody_perc''" waterbody_label "example_polygon ''stark variabel'' 5"
      "''kf_highly_variable_perc''" "[''DE1'']"]
    extractor_percentage_formula [of example_lib example_huek_several example_gdf KF "''gauge_id''"
      "table_frame [''DE1''] kf_vocab
         (\<lambda>label. Fin (if label = ''stark variabel'' then 75 else if label = waterbody_label then 25 else 0))"
      "''kf_no_data_perc''" "''keine Angaben''" "example_polygon ''stark variabel'' 5"
      "''kf_highly_variable_perc''" "[''DE1'']"]
    extractor_percentage_formula [of example_lib example_huek_single example_gdf KF "''gauge_id''"
      "table_frame [''DE1''] kf_vocab (\<lambda>label. Fin (if label = ''stark variabel'' then 100 else 0))"
      "''kf_highly_variable_perc''" "''stark variabel''" "example_polygon ''stark variabel'' 5"
      "''kf_highly_variable_perc''" "[''DE1'']"]
    example_kf_several
  by (simp add: example_lib_def example_huek_single_def example_huek_several_def example_gdf_def
      example_polygon_def example_catchment_def catchment_getitem_def kf_vocab_def table_frame_index
      fdiv_def waterbody_label_def ae_def sz_def)

text \<open>
  C10. On a frame with at least one row the checker succeeds exactly when the sum of the
  prefix columns of row 0 is within the tolerance, it fails with an AssertionError exactly
  when it is not, and two frames with the same row 0 get the same answer, whatever their
  other rows hold.
\<close>

theorem checker_first_row_only:
  "index df \<noteq> [] \<Longrightarrow>
     (check_extracted_values df category = Inr () \<longleftrightarrow> within_tolerance (prefix_sum df category 0)) \<and>
     (check_extracted_values df category = Inl AssertionError \<longleftrightarrow>
        \<not> within_tolerance (prefix_sum df category 0)) \<and>
     (index df' \<noteq> [] \<and> row_of df' 0 = row_of df 0 \<longrightarrow>
        check_extracted_values df' category = check_extracted_values df category)"
  by (simp add: check_extracted_values_eq prefix_sum_row_of)

theorem checker_first_row_only_witness:
  "index \<lparr>index = [''g1'', ''g2''], cols = [(''kf_a'', [Fin 100, Fin 3]), (''b'', [Fin 5, NaN])]\<rparr> \<noteq> [] \<and>
   check_extracted_values
     \<lparr>index = [''g1'', ''g2''], cols = [(''kf_a'', [Fin 100, Fin 3]), (''b'', [Fin 5, NaN])]\<rparr> ''kf'' = Inr () \<and>
   row_of \<lparr>index = [''h1'', ''h2'', ''h3''], cols = [(''kf_a'', [Fin 100, Fin 7, PInf]), (''b'', [Fin 5, Fin 1, NaN])]\<rparr> 0 =
   row_of \<lparr>index = [''g1'', ''g2''], cols = [(''kf_a'', [Fin 100, Fin 3]), (''b'', [Fin 5, NaN])]\<rparr> 0 \<and>
   check_extracted_values
     \<lparr>index = [''h1'', ''h2'', ''h3''], cols = [(''kf_a'', [Fin 100, Fin 7, PInf]), (''b'', [Fin 5, Fin 1, NaN])]\<rparr> ''kf'' = Inr ()"
  using checker_first_row_only [of
      "\<lparr>index = [''g1'', ''g2''], cols = [(''kf_a'', [Fin 100, Fin 3]), (''b'', [Fin 5, NaN])]\<rparr>" "''kf''"
      "\<lparr>index = [''h1'', ''h2'', ''h3''], cols = [(''kf_a'', [Fin 100, Fin 7, PInf]), (''b'', [Fin 5, Fin 1, NaN])]\<rparr>"]
  by (simp add: prefix_sum_def getitem_list_def columns_def nansum_def within_tolerance_def row_of_def)

text \<open>
  C2. Let the six extractors succeed on the catchment. When their six waterbody columns
  hold one and the same value, and their six no-data columns too, the loop body produces
  the merged row: its columns are those of the six frames without the twelve waterbody and
  no-data columns, followed by \<open>waterbody_perc\<close> and \<open>no_data_perc\<close>, each once and
  each holding the shared value. Otherwise the loop body raises an AssertionError, and so
  does the aggregator on every catchment set that holds this catchment.
\<close>

theorem collapse_shared_columns:
  assumes "\<forall>a. extractor a G huek (single_catchment huek row) idf = Inr (dfs a)"
  shows "if (\<forall>a. getitem (dfs a) (waterbody_column a) = getitem (dfs KF) (waterbody_column KF)) \<and>
            (\<forall>a. getitem (dfs a) (no_data_column a) = getitem (dfs KF) (no_data_column KF))
         then \<exists>df. merge_catchment G huek idf row = Inr df \<and>
                columns df = merged_columns \<and>
                count_list (columns df) ''waterbody_perc'' = 1 \<and>
                count_list (columns df) ''no_data_perc'' = 1 \<and>
                getitem df ''waterbody_perc'' = getitem (dfs KF) (waterbody_column KF) \<and>
                getitem df ''no_data_perc'' = getitem (dfs KF) (no_data_column KF) \<and>
                (\<forall>a. waterbody_column a \<notin> set (columns df) \<and> no_data_column a \<notin> set (columns df))
         else merge_catchment G huek idf row = Inl AssertionError \<and>
              (\<forall>catchments. row \<in> set (catchment_rows (to_crs G catchments (huek_crs huek))) \<longrightarrow>
                 (\<exists>e. extract_hydrogeology_attributes_huek G huek catchments idf = Inl e))"
proof -
  from assms have kf: "extractor KF G huek (single_catchment huek row) idf = Inr (dfs KF)" by blast
  then obtain g where g: "map_of (attrs row) idf = Some g"
    unfolding extractor_single by (auto split: option.splits)
  have ok: "field_ok G huek row a" and df: "dfs a = table_frame [g] (vocab_of a) (cell G huek row a)" for a
    using assms [rule_format, of a] g unfolding extractor_single by (auto split: if_splits)
  have oks: "list_all (field_ok G huek row) attributes"
    using ok by (simp add: list_all_iff)
  have area: "area_sum G (huek_rows (clip G huek (single_catchment huek row))) \<noteq> 0"
    by (rule field_ok_area [OF ok])
  have wb: "getitem (dfs a) (waterbody_column a) = Inr [cell G huek row a waterbody_label]" for a
    unfolding df using getitem_table_frame [OF vocab_distinct waterbody_column_vocab, where ids = "[g]"]
    by simp
  have nd: "getitem (dfs a) (no_data_column a) = Inr [cell G huek row a no_data_label]" for a
    unfolding df using getitem_table_frame [OF vocab_distinct no_data_column_vocab, where ids = "[g]"]
    by simp
  have kfwb: "getitem (dfs KF) ''kf_waterbody_perc'' = Inr [cell G huek row KF waterbody_label]"
    using wb [of KF] by simp
  have kfnd: "getitem (dfs KF) ''kf_no_data_perc'' = Inr [cell G huek row KF no_data_label]"
    using nd [of KF] by simp
  have dropped: "waterbody_column a \<notin> set merged_columns \<and> no_data_column a \<notin> set merged_columns" for a
    using merged_columns_dropped attributes_all [of a] by (simp add: list_all_iff)
  show ?thesis
  proof (cases "(\<forall>a. cell G huek row a waterbody_label = cell G huek row KF waterbody_label) \<and>
      (\<forall>a. cell G huek row a no_data_label = cell G huek row KF no_data_label)")
    case True
    then have "len_set (map (\<lambda>a. cell G huek row a waterbody_label) attributes) = 1"
      and "len_set (map (\<lambda>a. cell G huek row a no_data_label) attributes) = 1"
      using len_set_cells [OF area, of waterbody_label] len_set_cells [OF area, of no_data_label]
      by blast+
    then have "merge_catchment G huek idf row = Inr (merged_frame g (cell G huek row))"
      using g oks by (simp add: merge_catchment_eq)
    then show ?thesis
      using True dropped
      by (simp add: wb nd kfwb kfnd merged_columns_eq merged_columns_count merged_frame_getitem)
  next
    case False
    then have "len_set (map (\<lambda>a. cell G huek row a waterbody_label) attributes) \<noteq> 1 \<or>
        len_set (map (\<lambda>a. cell G huek row a no_data_label) attributes) \<noteq> 1"
      using len_set_cells [OF area, of waterbody_label] len_set_cells [OF area, of no_data_label]
      by blast
    then have m: "merge_catchment G huek idf row = Inl AssertionError"
      using g oks by (auto simp: merge_catchment_eq)
    then have "\<exists>e. extract_hydrogeology_attributes_huek G huek catchments idf = Inl e"
      if "row \<in> set (catchment_rows (to_crs G catchments (huek_crs huek)))" for catchments
      using aggregator_fails [OF that] by blast
    then show ?thesis using False m by (simp add: wb nd kfwb kfnd)
  qed
qed

theorem collapse_shared_columns_witness:
  "(\<forall>a. extractor a example_lib example_huek_ok
          (single_catchment example_huek_ok (example_catchment ''DE1'')) ''gauge_id'' =
        Inr (table_frame [''DE1''] (vocab_of a) (cell example_lib example_huek_ok (example_catchment ''DE1'') a))) \<and>
   merge_catchment example_lib example_huek_ok ''gauge_id'' (example_catchment ''DE1'') =
     Inr (merged_frame ''DE1'' (cell example_lib example_huek_ok (example_catchment ''DE1''))) \<and>
   getitem (merged_frame ''DE1'' (cell example_lib example_huek_ok (example_catchment ''DE1''))) ''waterbody_perc'' =
     Inr [Fin 40] \<and>
   getitem (merged_frame ''DE1'' (cell example_lib example_huek_ok (example_catchment ''DE1''))) ''no_data_perc'' =
     Inr [Fin 0] \<and>
   (\<forall>a. extractor a example_lib example_huek_mismatch
          (single_catchment example_huek_mismatch (example_catchment ''DE1'')) ''gauge_id'' =
        Inr (table_frame [''DE1''] (vocab_of a)
          (cell example_lib example_huek_mismatch (example_catchment ''DE1'') a))) \<and>
   merge_catchment example_lib example_huek_mismatch ''gauge_id'' (example_catchment ''DE1'') =
     Inl AssertionError"
  using
    collapse_shared_columns [of example_lib example_huek_ok "example_catchment ''DE1''" "''gauge_id''"
      "\<lambda>a. table_frame [''DE1''] (vocab_of a) (cell example_lib example_huek_ok (example_catchment ''DE1'') a)"]
    collapse_shared_columns [of example_lib example_huek_mismatch "example_catchment ''DE1''" "''gauge_id''"
      "\<lambda>a. table_frame [''DE1''] (vocab_of a) (cell example_lib example_huek_mismatch (example_catchment ''DE1'') a)"]
  by (simp add: example_ok_extractor example_mismatch_extractor example_ok_merge example_mismatch_merge
      merged_frame_getitem example_ok_waterbody example_ok_no_data)

text \<open>
  C4. When the clipped area of a catchment is zero, every extractor raises (the
  AssertionError of the checker, unless the identifier column is missing or the catchment
  frame has no row, which raise before), and the aggregator raises on every catchment set
  that holds such a catchment: no row of zeros and no NaN reaches the table.
\<close>

theorem zero_area_raises:
  "(area_sum G (huek_rows (clip G huek catchment)) = 0 \<longrightarrow>
      extractor a G huek catchment id_field_name =
        (case catchment_getitem catchment id_field_name of
           Inl e \<Rightarrow> Inl e
         | Inr ids \<Rightarrow> if ids = [] then Inl IndexError else Inl AssertionError)) \<and>
   (row \<in> set (catchment_rows (to_crs G catchments (huek_crs huek))) \<and>
    area_sum G (huek_rows (clip G huek (single_catchment huek row))) = 0 \<longrightarrow>
      (\<exists>e. extract_hydrogeology_attributes_huek G huek catchments id_field_name = Inl e))"
proof (intro conjI impI)
  assume "area_sum G (huek_rows (clip G huek catchment)) = 0"
  then show "extractor a G huek catchment id_field_name =
        (case catchment_getitem catchment id_field_name of
           Inl e \<Rightarrow> Inl e
         | Inr ids \<Rightarrow> if ids = [] then Inl IndexError else Inl AssertionError)"
    by (rule extractor_zero_area)
next
  assume h: "row \<in> set (catchment_rows (to_crs G catchments (huek_crs huek))) \<and>
    area_sum G (huek_rows (clip G huek (single_catchment huek row))) = 0"
  then obtain e where "merge_catchment G huek id_field_name row = Inl e"
    using merge_catchment_zero_area by blast
  with h show "\<exists>e. extract_hydrogeology_attributes_huek G huek catchments id_field_name = Inl e"
    using aggregator_fails by blast
qed

theorem zero_area_raises_witness:
  "area_sum example_lib (huek_rows (clip example_lib example_huek_empty example_gdf)) = 0 \<and>
   extractor KF example_lib example_huek_empty example_gdf ''gauge_id'' = Inl AssertionError \<and>
   example_catchment ''DE2'' \<in> set (catchment_rows (to_crs example_lib example_catchments (huek_crs example_huek_empty))) \<and>
   area_sum example_lib (huek_rows (clip example_lib example_huek_empty
     (single_catchment example_huek_empty (example_catchment ''DE2'')))) = 0 \<and>
   (\<exists>e. extract_hydrogeology_attributes_huek example_lib example_huek_empty example_catchments ''gauge_id'' = Inl e)"
  using zero_area_raises [of example_lib example_huek_empty example_gdf KF "''gauge_id''"
      "example_catchment ''DE2''" example_catchments]
  by (simp add: example_empty_area example_to_crs_rows)
    (simp add: example_gdf_def example_catchments_def example_catchment_def catchment_getitem_def)

text \<open>
  C5. When the loop body fails on one catchment of the set, the aggregator returns an error
  and no table.
\<close>

theorem single_failure_aborts:
  "row \<in> set (catchment_rows (to_crs G catchments (huek_crs huek))) \<Longrightarrow>
   merge_catchment G huek id_field_name row = Inl e \<Longrightarrow>
   (\<exists>e'. extract_hydrogeology_attributes_huek G huek catchments id_field_name = Inl e') \<and>
   (\<forall>T. extract_hydrogeology_attributes_huek G huek catchments id_field_name \<noteq> Inr T)"
  using aggregator_fails [of row G catchments huek id_field_name e] by auto

theorem single_failure_aborts_witness:
  "example_catchment ''DE2'' \<in>
     set (catchment_rows (to_crs example_lib example_catchments (huek_crs example_huek_mismatch))) \<and>
   merge_catchment example_lib example_huek_mismatch ''gauge_id'' (example_catchment ''DE2'') = Inl AssertionError \<and>
   (\<exists>e'. extract_hydrogeology_attributes_huek example_lib example_huek_mismatch example_catchments ''gauge_id'' = Inl e')"
  using single_failure_aborts [of "example_catchment ''DE2''" example_lib example_catchments
      example_huek_mismatch "''gauge_id''" AssertionError]
  by (simp add: example_to_crs_rows example_mismatch_merge) (simp add: example_catchments_def)

text \<open>
  C6. When the aggregator returns a table, every catchment of the set (in the order of the
  set) has its merged row, and the table has one row for each of them: its index is the
  identifier column of the catchment set, its columns are those of a merged row, and in
  every column the cell of row \<open>i\<close> is the cell of the merged row of catchment \<open>i\<close>
  rounded to two decimals, that is a multiple of 0.01 at most 0.005 away from it.
\<close>

theorem output_table:
  assumes "extract_hydrogeology_attributes_huek G huek catchments id_field_name = Inr T"
  shows "\<exists>dfs.
     list_all2 (\<lambda>row df. merge_catchment G huek id_field_name row = Inr df)
       (catchment_rows (to_crs G catchments (huek_crs huek))) dfs \<and>
     catchment_getitem catchments id_field_name = Inr (index T) \<and>
     length (index T) = length dfs \<and>
     (dfs \<noteq> [] \<longrightarrow> columns T = merged_columns) \<and>
     (\<forall>i<length dfs.
        index (dfs ! i) = [index T ! i] \<and> columns (dfs ! i) = columns T \<and>
        (\<forall>n\<in>set (columns T). \<exists>c xs. getitem (dfs ! i) n = Inr [c] \<and> getitem T n = Inr xs \<and>
           length xs = length dfs \<and> xs ! i = round_cell 2 c)) \<and>
     (\<forall>x. \<exists>k::int. round_cell 2 (Fin x) = Fin (of_int k / 100) \<and> \<bar>of_int k / 100 - x\<bar> \<le> 1 / 200)"
proof -
  from aggregator_result [OF assms] obtain dfs where
    d: "list_all2 (\<lambda>row df. merge_catchment G huek id_field_name row = Inr df)
       (catchment_rows (to_crs G catchments (huek_crs huek))) dfs"
    and T: "T = round_frame (if dfs = [] then DataFrame else vstack merged_columns dfs) 2"
    and i: "catchment_getitem catchments id_field_name = Inr (concat (map index dfs))"
    by blast
  have ix: "index T = concat (map index dfs)"
    unfolding T by (simp add: round_frame_index vstack_def DataFrame_def)
  from i ix have i': "catchment_getitem catchments id_field_name = Inr (index T)" by simp
  from merged_rows_index [OF d] have "list_all (\<lambda>df. columns df = merged_columns) dfs" by simp
  have one: "list_all (\<lambda>d. \<exists>c. index d = [c]) dfs"
  proof -
    have "\<exists>c. index df = [c]" if "df \<in> set dfs" for df
    proof -
      from that obtain j where "j < length dfs" "df = dfs ! j" by (metis in_set_conv_nth)
      with d have "merge_catchment G huek id_field_name
          (catchment_rows (to_crs G catchments (huek_crs huek)) ! j) = Inr df"
        by (simp add: list_all2_conv_all_nth)
      from merge_catchment_Inr [OF this] show ?thesis by (auto simp: merged_frame_def)
    qed
    then show ?thesis by (simp add: list_all_iff)
  qed
  from concat_singletons [OF one] have len: "length (index T) = length dfs" unfolding ix by simp
  have cols: "columns T = merged_columns" if "dfs \<noteq> []"
    unfolding T using that by (simp add: round_frame_columns vstack_columns)
  have rows: "index (dfs ! i) = [index T ! i] \<and> columns (dfs ! i) = columns T \<and>
        (\<forall>n\<in>set (columns T). \<exists>c xs. getitem (dfs ! i) n = Inr [c] \<and> getitem T n = Inr xs \<and>
           length xs = length dfs \<and> xs ! i = round_cell 2 c)" if "i < length dfs" for i
  proof -
    from that have ne: "dfs \<noteq> []" by auto
    then have T': "T = round_frame (vstack merged_columns dfs) 2" using T by simp
    from output_rows [OF d that] show ?thesis
      unfolding cols [OF ne] unfolding T' by simp
  qed
  show ?thesis
    using d i' len cols rows round_cell_2 by blast
qed

theorem output_table_witness:
  "extract_hydrogeology_attributes_huek interval_lib interval_huek interval_catchments ''gauge_id'' =
     Inr interval_table \<and>
   catchment_getitem interval_catchments ''gauge_id'' = Inr [''DE7'', ''DE2''] \<and>
   index interval_table = [''DE7'', ''DE2''] \<and>
   columns interval_table = merged_columns \<and>
   length (columns interval_table) = 34 \<and>
   merge_catchment interval_lib interval_huek ''gauge_id'' (interval_catchment ''DE7'' (0, 3)) =
     Inr (merged_frame ''DE7'' (cell interval_lib interval_huek (interval_catchment ''DE7'' (0, 3)))) \<and>
   getitem (merged_frame ''DE7'' (cell interval_lib interval_huek (interval_catchment ''DE7'' (0, 3))))
     ''waterbody_perc'' = Inr [Fin (100 / 3)] \<and>
   merge_catchment interval_lib interval_huek ''gauge_id'' (interval_catchment ''DE2'' (2, 4)) =
     Inr (merged_frame ''DE2'' (cell interval_lib interval_huek (interval_catchment ''DE2'' (2, 4)))) \<and>
   getitem (merged_frame ''DE2'' (cell interval_lib interval_huek (interval_catchment ''DE2'' (2, 4))))
     ''waterbody_perc'' = Inr [Fin 50] \<and>
   getitem interval_table ''waterbody_perc'' = Inr [Fin (3333 / 100), Fin 50] \<and>
   getitem interval_table ''kf_highly_variable_perc'' = Inr [Fin (6667 / 100), Fin 50] \<and>
   getitem interval_table ''no_data_perc'' = Inr [Fin 0, Fin 0] \<and>
   round_cell 2 (Fin (100 / 3)) = Fin (3333 / 100)"
proof -
  from output_table [OF interval_run] obtain dfs where
    f: "list_all2 (\<lambda>row df. merge_catchment interval_lib interval_huek ''gauge_id'' row = Inr df)
         (catchment_rows (to_crs interval_lib interval_catchments (huek_crs interval_huek))) dfs \<and>
       catchment_getitem interval_catchments ''gauge_id'' = Inr (index interval_table) \<and>
       length (index interval_table) = length dfs \<and>
       (dfs \<noteq> [] \<longrightarrow> columns interval_table = merged_columns)"
    by (elim exE conjE) (intro that conjI)
  then have "catchment_getitem interval_catchments ''gauge_id'' = Inr (index interval_table)"
    "columns interval_table = merged_columns"
    by (auto simp: interval_table_def)
  moreover have "index interval_table = [''DE7'', ''DE2'']" by (simp add: interval_table_def)
  moreover have "length (columns interval_table) = 34" by (simp add: interval_table_def columns_def)
  moreover have "getitem interval_table ''waterbody_perc'' = Inr [Fin (3333 / 100), Fin 50]"
    "getitem interval_table ''kf_highly_variable_perc'' = Inr [Fin (6667 / 100), Fin 50]"
    "getitem interval_table ''no_data_perc'' = Inr [Fin 0, Fin 0]"
    by (simp_all add: interval_table_def getitem_def)
  moreover have "round_cell 2 (Fin (100 / 3)) = Fin (3333 / 100)"
    by (simp add: rint_3333)
  ultimately show ?thesis
    using interval_run interval_merge_DE7 interval_merge_DE2
    by (auto simp: merged_frame_getitem interval_cell_DE7 interval_cell_DE2 waterbody_label_def
        interval_land_def ae_def)
qed

text \<open>
  C7, as the program has it. A frame that the permeability extractor returns has exactly 14
  columns, all different: the seven classes of the scale, the four range classes, the
  class \<open>kf_highly_variable_perc\<close> (label \<open>stark variabel\<close>), which is neither, the
  waterbody column and the no-data column.
\<close>

theorem kf_column_breakdown:
  assumes "extract_kf_from_huek G huek catchment id_field_name = Inr df"
  shows "length (columns df) = 14 \<and> distinct (columns df) \<and>
     set (columns df) =
       set kf_base_columns \<union> set kf_range_columns \<union>
       {''kf_highly_variable_perc'', ''kf_waterbody_perc'', ''kf_no_data_perc''} \<and>
     length kf_base_columns = 7 \<and> length kf_range_columns = 4 \<and>
     ''kf_highly_variable_perc'' \<notin>
       set kf_base_columns \<union> set kf_range_columns \<union> {''kf_waterbody_perc'', ''kf_no_data_perc''}"
proof -
  have c: "columns df = map fst kf_vocab" by (rule extract_kf_columns [OF assms])
  have "length (map fst kf_vocab) = 14" by (simp add: kf_vocab_def)
  moreover have "distinct (map fst kf_vocab)" using vocab_distinct [of KF] by simp
  moreover have "length kf_base_columns = 7" by (simp add: kf_base_columns_def)
  moreover have "length kf_range_columns = 4" by (simp add: kf_range_columns_eq)
  ultimately show ?thesis
    unfolding c using kf_columns_set kf_highly_variable_apart by blast
qed

theorem kf_column_breakdown_witness:
  "extract_kf_from_huek example_lib example_huek_unknown example_gdf ''gauge_id'' =
     Inr (table_frame [''DE1''] kf_vocab (\<lambda>label. Fin (if label = ''stark variabel'' then 9988 / 100 else 0))) \<and>
   length (columns (table_frame [''DE1''] kf_vocab
     (\<lambda>label. Fin (if label = ''stark variabel'' then 9988 / 100 else 0)))) = 14"
  using kf_column_breakdown [OF example_kf_unknown] example_kf_unknown by simp

text \<open>
  C7 as stated fails: seven classes of the scale, four range classes, a waterbody and a
  no-data column are 13 columns; the frame has a fourteenth, \<open>kf_highly_variable_perc\<close>.
\<close>

theorem kf_thirteen_counterexample:
  "extract_kf_from_huek example_lib example_huek_unknown example_gdf ''gauge_id'' =
     Inr (table_frame [''DE1''] kf_vocab (\<lambda>label. Fin (if label = ''stark variabel'' then 9988 / 100 else 0))) \<and>
   ''kf_highly_variable_perc'' \<in> set (columns (table_frame [''DE1''] kf_vocab
     (\<lambda>label. Fin (if label = ''stark variabel'' then 9988 / 100 else 0)))) \<and>
   ''kf_highly_variable_perc'' \<notin>
     set kf_base_columns \<union> set kf_range_columns \<union> {''kf_waterbody_perc'', ''kf_no_data_perc''} \<and>
   length kf_base_columns + length kf_range_columns + 1 + 1 \<noteq>
     length (columns (table_frame [''DE1''] kf_vocab
       (\<lambda>label. Fin (if label = ''stark variabel'' then 9988 / 100 else 0))))"
proof -
  have "columns (table_frame [''DE1''] kf_vocab
      (\<lambda>label. Fin (if label = ''stark variabel'' then 9988 / 100 else 0))) = map fst kf_vocab"
    by (simp add: columns_def table_frame_cols_fst)
  moreover have "''kf_highly_variable_perc'' \<in> set (map fst kf_vocab)"
    by (simp add: kf_columns)
  moreover have "length (map fst kf_vocab) = 14" by (simp add: kf_vocab_def)
  moreover have "length kf_base_columns = 7" by (simp add: kf_base_columns_def)
  moreover have "length kf_range_columns = 4" by (simp add: kf_range_columns_eq)
  ultimately show ?thesis
    using example_kf_unknown kf_highly_variable_apart by simp
qed

text \<open>
  C9. Let the two calls into geopandas, \<^verbatim>\<open>to_crs\<close> and \<^verbatim>\<open>clip\<close>, leave the objects that
  exist as they are. Then after a run of the aggregator, whether it returns or raises, every
  object that was in the store before is there as it was, the base map and the caller's
  catchment collection among them: the statements of the program that work in place
  (\<^verbatim>\<open>df[col] = v\<close>, \<^verbatim>\<open>set_index\<close>, \<^verbatim>\<open>drop\<close>) go to frames that the run has made, and the
  table that is returned is a new object.
\<close>

theorem inputs_unchanged:
  assumes "lib_preserves L"
    and "extract_hydrogeology_attributes_huek_store G L huek catchments id_field_name h = (res, h')"
  shows "prefix h h' \<and>
     (huek < length h \<longrightarrow> h' ! huek = h ! huek) \<and>
     (catchments < length h \<longrightarrow> h' ! catchments = h ! catchments) \<and>
     (\<forall>T. res = Inr T \<longrightarrow> length h \<le> T)"
proof -
  from safe_aggregator_store [OF assms(1), of "length h" G huek catchments id_field_name] assms(2)
  have k: "keeps (length h) h h'" and f: "\<forall>T. res = Inr T \<longrightarrow> length h \<le> T"
    by (auto simp: safe_def)
  from keeps_all [OF k] have p: "prefix h h'" .
  then have "h' ! i = h ! i" if "i < length h" for i
    using that by (auto simp: prefix_def nth_append)
  with p f show ?thesis by simp
qed

theorem inputs_unchanged_witness:
  "prefix example_store
     (snd (extract_hydrogeology_attributes_huek_store interval_lib (alloc_lib interval_lib) 1 2
        ''gauge_id'' example_store)) \<and>
   snd (extract_hydrogeology_attributes_huek_store interval_lib (alloc_lib interval_lib) 1 2
        ''gauge_id'' example_store) ! 1 = \<lparr>table = DataFrame, geodata = Polygons interval_huek\<rparr> \<and>
   snd (extract_hydrogeology_attributes_huek_store interval_lib (alloc_lib interval_lib) 1 2
        ''gauge_id'' example_store) ! 2 = \<lparr>table = DataFrame, geodata = Catchments interval_catchments\<rparr>"
  using inputs_unchanged [OF alloc_lib_preserves, of interval_lib interval_lib 1 2 "''gauge_id''" example_store
      "fst (extract_hydrogeology_attributes_huek_store interval_lib (alloc_lib interval_lib) 1 2
        ''gauge_id'' example_store)"
      "snd (extract_hydrogeology_attributes_huek_store interval_lib (alloc_lib interval_lib) 1 2
        ''gauge_id'' example_store)"]
  by (simp add: example_store_def)

end
